theory Spec2Isabelle
  imports Complex_Main
begin

section \<open>JavaScript numbers\<close>

text \<open>
  A Number is a double: \<^verbatim>\<open>NaN\<close>, one of the two infinities, or a finite value. The two
  zeros are not told apart (no operation of the backoff computation distinguishes them).
  The arithmetic below produces representable values only: every finite result is
  rounded to the nearest double, ties to even, and overflows to an infinity.
\<close>

datatype number = Finite real | PosInfinity | NegInfinity | NaN

text \<open>The integer nearest to \<open>y\<close>, the even one of the two when \<open>y\<close> lies halfway.\<close>

definition round_half_even :: "real \<Rightarrow> int" where
  "round_half_even y =
     (let f = \<lfloor>y\<rfloor>; d = y - of_int f
      in if d < 1/2 then f else if 1/2 < d then f + 1 else if even f then f else f + 1)"

text \<open>
  The binary exponent of the format's interval that holds a positive \<open>x\<close>: the least
  \<open>k\<close> from \<open>-1022\<close> (the subnormal range and the first normal interval) with
  \<open>x < 2 ^ (k + 1)\<close>, and 1024 beyond the largest interval. The search starts at \<open>-1022\<close>.
\<close>

function binade_from :: "int \<Rightarrow> real \<Rightarrow> int" where
  "binade_from k x = (if k < 1024 \<and> 2 powi (k + 1) \<le> x then binade_from (k + 1) x else k)"
  by pat_completeness auto
termination
  by (relation "measure (\<lambda>(k, x). nat (1024 - k))") auto

declare binade_from.simps [simp del]

definition binade :: "real \<Rightarrow> int" where
  "binade x = binade_from (- 1022) x"

text \<open>
  Rounding a positive real to 53 significant bits: in the interval of exponent \<open>k\<close>
  the doubles are the multiples of \<open>2 ^ (k - 52)\<close>.
\<close>

definition round_pos :: "real \<Rightarrow> real" where
  "round_pos x =
     of_int (round_half_even (x / 2 powi (binade x - 52))) * 2 powi (binade x - 52)"

definition round_double :: "real \<Rightarrow> number" where
  "round_double x =
     (if x = 0 then Finite 0
      else if 0 < x
        then (if 2 ^ 1024 \<le> round_pos x then PosInfinity else Finite (round_pos x))
      else (if 2 ^ 1024 \<le> round_pos (- x) then NegInfinity else Finite (- round_pos (- x))))"

text \<open>An infinity times a finite \<open>a\<close>, given with the sign of the infinity folded into \<open>a\<close>.\<close>

definition signed_infinity :: "real \<Rightarrow> number" where
  "signed_infinity a = (if a = 0 then NaN else if 0 < a then PosInfinity else NegInfinity)"

text \<open>The operators \<^verbatim>\<open>*\<close> and \<^verbatim>\<open>+\<close>.\<close>

fun num_mul :: "number \<Rightarrow> number \<Rightarrow> number" where
  "num_mul NaN b = NaN"
| "num_mul a NaN = NaN"
| "num_mul (Finite a) (Finite b) = round_double (a * b)"
| "num_mul (Finite a) PosInfinity = signed_infinity a"
| "num_mul (Finite a) NegInfinity = signed_infinity (- a)"
| "num_mul PosInfinity (Finite b) = signed_infinity b"
| "num_mul NegInfinity (Finite b) = signed_infinity (- b)"
| "num_mul PosInfinity PosInfinity = PosInfinity"
| "num_mul PosInfinity NegInfinity = NegInfinity"
| "num_mul NegInfinity PosInfinity = NegInfinity"
| "num_mul NegInfinity NegInfinity = PosInfinity"

fun num_add :: "number \<Rightarrow> number \<Rightarrow> number" where
  "num_add NaN b = NaN"
| "num_add a NaN = NaN"
| "num_add (Finite a) (Finite b) = round_double (a + b)"
| "num_add (Finite a) PosInfinity = PosInfinity"
| "num_add (Finite a) NegInfinity = NegInfinity"
| "num_add PosInfinity (Finite b) = PosInfinity"
| "num_add NegInfinity (Finite b) = NegInfinity"
| "num_add PosInfinity PosInfinity = PosInfinity"
| "num_add PosInfinity NegInfinity = NaN"
| "num_add NegInfinity PosInfinity = NaN"
| "num_add NegInfinity NegInfinity = NegInfinity"

text \<open>\<^verbatim>\<open>Math.min\<close> of two numbers and \<^verbatim>\<open>Math.floor\<close>.\<close>

fun Math_min :: "number \<Rightarrow> number \<Rightarrow> number" where
  "Math_min NaN b = NaN"
| "Math_min a NaN = NaN"
| "Math_min NegInfinity b = NegInfinity"
| "Math_min a NegInfinity = NegInfinity"
| "Math_min PosInfinity b = b"
| "Math_min a PosInfinity = a"
| "Math_min (Finite a) (Finite b) = Finite (min a b)"

fun Math_floor :: "number \<Rightarrow> number" where
  "Math_floor (Finite x) = Finite (of_int \<lfloor>x\<rfloor>)"
| "Math_floor PosInfinity = PosInfinity"
| "Math_floor NegInfinity = NegInfinity"
| "Math_floor NaN = NaN"

text \<open>
  \<^verbatim>\<open>Math.pow(base, n)\<close> for a non-negative integer exponent. The language leaves the last
  bit of a finite power to the engine; the exact power rounded to the nearest double is
  taken here (every engine returns the exact power where it is a double).
\<close>

definition Math_pow :: "number \<Rightarrow> nat \<Rightarrow> number" where
  "Math_pow base n =
     (if n = 0 then Finite 1
      else case base of
        NaN \<Rightarrow> NaN
      | PosInfinity \<Rightarrow> PosInfinity
      | NegInfinity \<Rightarrow> (if even n then PosInfinity else NegInfinity)
      | Finite x \<Rightarrow> round_double (x ^ n))"


section \<open>Retry policies (src/shared/retry.config.ts)\<close>

text \<open>
  The interface \<^verbatim>\<open>RetryConfig\<close>. \<^verbatim>\<open>maxRetries\<close> counts retries after the initial attempt
  and \<^verbatim>\<open>timeoutMs\<close> is a duration in whole milliseconds, so both are naturals; the delay
  fields take part in the backoff arithmetic of \<^verbatim>\<open>calculateBackoffDelay\<close> and are
  JavaScript numbers.
\<close>

record RetryConfig =
  maxRetries :: nat
  initialDelayMs :: number
  maxDelayMs :: number
  backoffMultiplier :: number
  timeoutMs :: nat
  enableJitter :: bool

definition PDF_RETRY_CONFIG :: RetryConfig where
  "PDF_RETRY_CONFIG =
     \<lparr>maxRetries = 4, initialDelayMs = Finite 1000, maxDelayMs = Finite 30000,
      backoffMultiplier = Finite 2, timeoutMs = 90000, enableJitter = True\<rparr>"

definition TEXT_RETRY_CONFIG :: RetryConfig where
  "TEXT_RETRY_CONFIG =
     \<lparr>maxRetries = 3, initialDelayMs = Finite 500, maxDelayMs = Finite 20000,
      backoffMultiplier = Finite 2, timeoutMs = 60000, enableJitter = True\<rparr>"

definition DEFAULT_RETRY_CONFIG :: RetryConfig where
  "DEFAULT_RETRY_CONFIG = TEXT_RETRY_CONFIG"

definition RETRYABLE_HTTP_STATUS_CODES :: "int list" where
  "RETRYABLE_HTTP_STATUS_CODES = [429, 500, 502, 503, 504]"

definition NON_RETRYABLE_HTTP_STATUS_CODES :: "int list" where
  "NON_RETRYABLE_HTTP_STATUS_CODES = [400, 401, 403, 404, 405, 422]"

definition RETRYABLE_ERROR_PATTERNS :: "string list" where
  "RETRYABLE_ERROR_PATTERNS =
     [''timeout'', ''ETIMEDOUT'', ''EHOSTUNREACH'', ''ECONNREFUSED'', ''ECONNRESET'',
      ''EPIPE'', ''Rate limit'', ''rate limit'', ''Service Unavailable'',
      ''service unavailable'', ''Gateway Timeout'', ''gateway timeout'',
      ''Too Many Requests'', ''too many requests'', ''Network Error'', ''network error'']"

definition NON_RETRYABLE_ERROR_PATTERNS :: "string list" where
  "NON_RETRYABLE_ERROR_PATTERNS =
     [''Invalid API key'', ''invalid api key'', ''Authentication failed'',
      ''authentication failed'', ''Unauthorized'', ''unauthorized'', ''Forbidden'',
      ''forbidden'', ''Not Found'', ''not found'', ''Bad Request'', ''bad request'',
      ''Invalid request'', ''invalid request'', ''Malformed'', ''malformed'']"


section \<open>Thrown values and JavaScript string helpers\<close>

text \<open>
  The value caught by a \<^verbatim>\<open>catch (error)\<close> is of type \<^verbatim>\<open>any\<close>. The model keeps the
  two nullish values apart from objects, and of an object the properties that the
  retry utilities read: \<^verbatim>\<open>status\<close>, \<^verbatim>\<open>statusCode\<close>, \<^verbatim>\<open>response?.status\<close>,
  \<^verbatim>\<open>response?.data?.message\<close>, \<^verbatim>\<open>message\<close>, \<^verbatim>\<open>code\<close> and the result of
  \<^verbatim>\<open>toString()\<close>. \<open>None\<close> is an absent (undefined) property.
\<close>

record error_obj =
  err_status :: "int option"
  err_statusCode :: "int option"
  err_response_status :: "int option"
  err_response_data_message :: "string option"
  err_message :: "string option"
  err_toString :: string
  err_code :: "string option"

datatype failure = Null | Undefined | Obj error_obj

text \<open>Truthiness of an optional number and of an optional string, and \<^verbatim>\<open>a || b\<close>.\<close>

fun truthy_num :: "int option \<Rightarrow> bool" where
  "truthy_num None = False"
| "truthy_num (Some n) = (n \<noteq> 0)"

fun truthy_str :: "string option \<Rightarrow> bool" where
  "truthy_str None = False"
| "truthy_str (Some s) = (s \<noteq> [])"

definition or_num :: "int option \<Rightarrow> int option \<Rightarrow> int option" where
  "or_num a b = (if truthy_num a then a else b)"

text \<open>
  \<^verbatim>\<open>String.prototype.toLowerCase\<close> on the ASCII letters; other characters are left
  as they are (all patterns of the classifier are ASCII).
\<close>

definition lower_char :: "char \<Rightarrow> char" where
  "lower_char c =
     (case map_of (zip ''ABCDEFGHIJKLMNOPQRSTUVWXYZ'' ''abcdefghijklmnopqrstuvwxyz'') c of
        None \<Rightarrow> c
      | Some d \<Rightarrow> d)"

definition toLowerCase :: "string \<Rightarrow> string" where
  "toLowerCase s = map lower_char s"

text \<open>\<^verbatim>\<open>s.includes(p)\<close>: \<open>p\<close> occurs in \<open>s\<close> as a contiguous substring.\<close>

fun str_includes :: "string \<Rightarrow> string \<Rightarrow> bool" where
  "str_includes [] p = (p = [])"
| "str_includes (c # s) p = (take (length p) (c # s) = p \<or> str_includes s p)"


section \<open>Retry utilities (retry.utils.ts)\<close>

text \<open>\<^verbatim>\<open>error.status || error.statusCode || error.response?.status\<close>\<close>

definition statusCodeOf :: "error_obj \<Rightarrow> int option" where
  "statusCodeOf e = or_num (or_num (err_status e) (err_statusCode e)) (err_response_status e)"

text \<open>\<^verbatim>\<open>error.message || error.toString() || ''\<close>\<close>

definition errorMessageOf :: "error_obj \<Rightarrow> string" where
  "errorMessageOf e =
     (case err_message e of
        None \<Rightarrow> err_toString e
      | Some m \<Rightarrow> if m \<noteq> [] then m else err_toString e)"

definition retryableErrorCodes :: "string list" where
  "retryableErrorCodes =
     [''ETIMEDOUT'', ''EHOSTUNREACH'', ''ECONNREFUSED'', ''ECONNRESET'', ''EPIPE'',
      ''ENOTFOUND'', ''EAI_AGAIN'']"

definition matchesPattern :: "string \<Rightarrow> string list \<Rightarrow> bool" where
  "matchesPattern errorMessageLower patterns =
     list_ex (\<lambda>pattern. str_includes errorMessageLower (toLowerCase pattern)) patterns"

text \<open>\<^verbatim>\<open>codes.includes(x)\<close> (strict equality; an undefined value is in no list).\<close>

fun list_includes :: "'a list \<Rightarrow> 'a option \<Rightarrow> bool" where
  "list_includes xs None = False"
| "list_includes xs (Some x) = (x \<in> set xs)"

fun isRetryableError :: "failure \<Rightarrow> bool" where
  "isRetryableError Null = False"
| "isRetryableError Undefined = False"
| "isRetryableError (Obj error) =
     (let statusCode = statusCodeOf error in
      if truthy_num statusCode \<and> list_includes NON_RETRYABLE_HTTP_STATUS_CODES statusCode
        then False
      else if truthy_num statusCode \<and> list_includes RETRYABLE_HTTP_STATUS_CODES statusCode
        then True
      else
        let errorMessageLower = toLowerCase (errorMessageOf error) in
        if matchesPattern errorMessageLower NON_RETRYABLE_ERROR_PATTERNS then False
        else if matchesPattern errorMessageLower RETRYABLE_ERROR_PATTERNS then True
        else if truthy_str (err_code error) \<and> list_includes retryableErrorCodes (err_code error)
          then True
        else False)"

text \<open>
  \<^verbatim>\<open>calculateBackoffDelay(attemptNumber, config)\<close>, with its two constants
  \<^verbatim>\<open>exponentialDelay\<close> and \<^verbatim>\<open>cappedDelay\<close> as functions of their own. The third argument
  is the value that \<^verbatim>\<open>Math.random()\<close> returns, a double in \<open>[0, 1)\<close>; it is read only when
  jitter is enabled.
\<close>

definition exponentialDelay :: "nat \<Rightarrow> RetryConfig \<Rightarrow> number" where
  "exponentialDelay attemptNumber config =
     num_mul (initialDelayMs config) (Math_pow (backoffMultiplier config) attemptNumber)"

definition cappedDelay :: "nat \<Rightarrow> RetryConfig \<Rightarrow> number" where
  "cappedDelay attemptNumber config =
     Math_min (exponentialDelay attemptNumber config) (maxDelayMs config)"

definition calculateBackoffDelay :: "nat \<Rightarrow> RetryConfig \<Rightarrow> real \<Rightarrow> number" where
  "calculateBackoffDelay attemptNumber config random =
     (if enableJitter config
      then (let jitterFactor = num_add (Finite 0.5) (Finite random)
            in Math_floor (num_mul (cappedDelay attemptNumber config) jitterFactor))
      else cappedDelay attemptNumber config)"

text \<open>Decimal rendering of a number inside a template string.\<close>

definition digit_char :: "nat \<Rightarrow> char" where
  "digit_char d = ''0123456789'' ! d"

function show_nat :: "nat \<Rightarrow> string" where
  "show_nat n = (if n < 10 then [digit_char n] else show_nat (n div 10) @ [digit_char (n mod 10)])"
  by pat_completeness auto
termination
  by (relation "measure id") auto

definition formatDuration :: "nat \<Rightarrow> string" where
  "formatDuration ms =
     (if ms < 1000 then show_nat ms @ ''ms''
      else
        let seconds = ms div 1000; minutes = seconds div 60 in
        if minutes > 0 then
          (let remainingSeconds = seconds mod 60 in
           if remainingSeconds > 0
           then show_nat minutes @ ''m '' @ show_nat remainingSeconds @ ''s''
           else show_nat minutes @ ''m'')
        else
          (let remainingMs = ms mod 1000 in
           if remainingMs > 0
           then show_nat seconds @ ''.'' @ show_nat (remainingMs div 100) @ ''s''
           else show_nat seconds @ ''s''))"

text \<open>
  Reading a property of \<^verbatim>\<open>null\<close> or \<^verbatim>\<open>undefined\<close> throws a \<^verbatim>\<open>TypeError\<close>; the argument
  is the printed name of the nullish value (V8's wording of the message).
\<close>

definition nullishTypeError :: "string \<Rightarrow> failure" where
  "nullishTypeError v =
     (let m = ''Cannot read properties of '' @ v @ '' (reading 'response')'' in
      Obj \<lparr>err_status = None, err_statusCode = None, err_response_status = None,
           err_response_data_message = None, err_message = Some m,
           err_toString = ''TypeError: '' @ m, err_code = None\<rparr>)"

text \<open>
  \<^verbatim>\<open>getErrorMessage(error)\<close> starts with \<^verbatim>\<open>error.response?.data?.message\<close>: the optional
  chaining protects \<^verbatim>\<open>response\<close> and \<^verbatim>\<open>data\<close>, not \<^verbatim>\<open>error\<close> itself, so a nullish
  argument throws (\<open>Inl\<close>).
\<close>

fun getErrorMessage :: "failure \<Rightarrow> failure + string" where
  "getErrorMessage Null = Inl (nullishTypeError ''null'')"
| "getErrorMessage Undefined = Inl (nullishTypeError ''undefined'')"
| "getErrorMessage (Obj error) =
     (if truthy_str (err_response_data_message error)
        then Inr (case err_response_data_message error of Some m \<Rightarrow> m | None \<Rightarrow> [])
      else if truthy_str (err_message error)
        then Inr (case err_message error of Some m \<Rightarrow> m | None \<Rightarrow> [])
      else Inr (err_toString error))"

record error_context =
  ctx_message :: string
  ctx_statusCode :: "int option"
  ctx_errorCode :: "string option"
  ctx_attemptNumber :: nat
  ctx_maxAttempts :: nat
  ctx_isRetryable :: bool

text \<open>
  \<^verbatim>\<open>createErrorContext\<close> builds its object literal in order, \<^verbatim>\<open>message: getErrorMessage(error)\<close>
  first, so it throws whenever \<^verbatim>\<open>getErrorMessage\<close> does. (The \<open>None\<close> alternatives for a
  nullish error are never reached: \<^verbatim>\<open>getErrorMessage\<close> has thrown before.)
\<close>

definition createErrorContext :: "failure \<Rightarrow> nat \<Rightarrow> nat \<Rightarrow> failure + error_context" where
  "createErrorContext error attemptNumber maxRetries' =
     (case getErrorMessage error of
        Inl thrown \<Rightarrow> Inl thrown
      | Inr m \<Rightarrow>
          Inr \<lparr>ctx_message = m,
               ctx_statusCode = (case error of Obj e \<Rightarrow> statusCodeOf e | _ \<Rightarrow> None),
               ctx_errorCode = (case error of Obj e \<Rightarrow> err_code e | _ \<Rightarrow> None),
               ctx_attemptNumber = attemptNumber + 1,
               ctx_maxAttempts = maxRetries' + 1,
               ctx_isRetryable = isRetryableError error\<rparr>)"


section \<open>The retry decorators (retry.decorator.ts)\<close>

text \<open>
  What one invocation of the wrapped method does: its promise resolves or rejects some
  milliseconds after the call, or never settles.
\<close>

datatype 'a promise = Resolved nat 'a | Rejected nat failure | Pending

text \<open>
  What a decorated call does: \<open>outcome\<close> is \<open>None\<close> when the returned promise never
  settles, \<open>Some (Inr v)\<close> when it resolves with \<open>v\<close>, \<open>Some (Inl e)\<close> when it rejects
  with \<open>e\<close>; \<open>invocations\<close> counts the calls of the wrapped method and \<open>delays\<close> lists the
  arguments of the \<^verbatim>\<open>sleep\<close> calls in order.
\<close>

record 'a run =
  outcome :: "(failure + 'a) option"
  invocations :: nat
  delays :: "number list"

text \<open>
  The attempt loop of \<^verbatim>\<open>Retry(config)\<close>. \<open>originalMethod i\<close> is what the \<open>i\<close>-th invocation
  (from 0) of the wrapped method does and \<open>random n\<close> the value of \<^verbatim>\<open>Math.random()\<close>
  during attempt \<open>n\<close>. The loop state is the attempt counter, \<^verbatim>\<open>lastError\<close>, and the
  invocations and sleeps so far. Log calls are left out. \<^verbatim>\<open>config.timeoutMs\<close> does not
  occur in the source of this decorator.
\<close>

function Retry_loop ::
  "RetryConfig \<Rightarrow> (nat \<Rightarrow> 'a promise) \<Rightarrow> (nat \<Rightarrow> real) \<Rightarrow> nat \<Rightarrow> failure \<Rightarrow> nat \<Rightarrow> number list \<Rightarrow> 'a run"
where
  "Retry_loop config originalMethod random attempt lastError calls slept =
     (if attempt \<le> maxRetries config then
        (case originalMethod calls of
           Pending \<Rightarrow> \<lparr>outcome = None, invocations = calls + 1, delays = slept\<rparr>
         | Resolved t result \<Rightarrow>
             \<lparr>outcome = Some (Inr result), invocations = calls + 1, delays = slept\<rparr>
         | Rejected t error \<Rightarrow>
             (case createErrorContext error attempt (maxRetries config) of
                Inl thrown \<Rightarrow>
                  \<lparr>outcome = Some (Inl thrown), invocations = calls + 1, delays = slept\<rparr>
              | Inr errorContext \<Rightarrow>
                  (let isLastAttempt = (attempt = maxRetries config);
                       shouldRetry = isRetryableError error
                   in if isLastAttempt \<or> \<not> shouldRetry
                      then \<lparr>outcome = Some (Inl error), invocations = calls + 1, delays = slept\<rparr>
                      else
                        (let delayMs = calculateBackoffDelay attempt config (random attempt)
                         in Retry_loop config originalMethod random (attempt + 1) error
                              (calls + 1) (slept @ [delayMs])))))
      else \<lparr>outcome = Some (Inl lastError), invocations = calls, delays = slept\<rparr>)"
  by pat_completeness auto
termination
  by (relation "measure (\<lambda>(config, originalMethod, random, attempt, lastError, calls, slept).
        Suc (maxRetries config) - attempt)") auto

declare Retry_loop.simps [simp del]

definition Retry :: "RetryConfig \<Rightarrow> (nat \<Rightarrow> 'a promise) \<Rightarrow> (nat \<Rightarrow> real) \<Rightarrow> 'a run" where
  "Retry config originalMethod random =
     Retry_loop config originalMethod random 0 Undefined 0 []"

text \<open>
  \<^verbatim>\<open>RetryWithTimeout(config)\<close> races every invocation against a timer of
  \<^verbatim>\<open>config.timeoutMs\<close>. An invocation that settles at the very millisecond the timer
  fires is given to the timer here (the source leaves the tie to the event loop).
\<close>

definition timeoutError :: "RetryConfig \<Rightarrow> failure" where
  "timeoutError config =
     (let m = ''Operation timed out after '' @ formatDuration (timeoutMs config) in
      Obj \<lparr>err_status = None, err_statusCode = None, err_response_status = None,
           err_response_data_message = None, err_message = Some m,
           err_toString = ''Error: '' @ m, err_code = None\<rparr>)"

fun race :: "RetryConfig \<Rightarrow> 'a promise \<Rightarrow> 'a promise" where
  "race config (Resolved t result) =
     (if t < timeoutMs config then Resolved t result
      else Rejected (timeoutMs config) (timeoutError config))"
| "race config (Rejected t error) =
     (if t < timeoutMs config then Rejected t error
      else Rejected (timeoutMs config) (timeoutError config))"
| "race config Pending = Rejected (timeoutMs config) (timeoutError config)"

function RetryWithTimeout_loop ::
  "RetryConfig \<Rightarrow> (nat \<Rightarrow> 'a promise) \<Rightarrow> (nat \<Rightarrow> real) \<Rightarrow> nat \<Rightarrow> failure \<Rightarrow> nat \<Rightarrow> number list \<Rightarrow> 'a run"
where
  "RetryWithTimeout_loop config originalMethod random attempt lastError calls slept =
     (if attempt \<le> maxRetries config then
        (case race config (originalMethod calls) of
           Pending \<Rightarrow> \<lparr>outcome = None, invocations = calls + 1, delays = slept\<rparr>
         | Resolved t result \<Rightarrow>
             \<lparr>outcome = Some (Inr result), invocations = calls + 1, delays = slept\<rparr>
         | Rejected t error \<Rightarrow>
             (case createErrorContext error attempt (maxRetries config) of
                Inl thrown \<Rightarrow>
                  \<lparr>outcome = Some (Inl thrown), invocations = calls + 1, delays = slept\<rparr>
              | Inr errorContext \<Rightarrow>
                  (let isLastAttempt = (attempt = maxRetries config);
                       shouldRetry = isRetryableError error
                   in if isLastAttempt \<or> \<not> shouldRetry
                      then \<lparr>outcome = Some (Inl error), invocations = calls + 1, delays = slept\<rparr>
                      else
                        (let delayMs = calculateBackoffDelay attempt config (random attempt)
                         in RetryWithTimeout_loop config originalMethod random (attempt + 1) error
                              (calls + 1) (slept @ [delayMs])))))
      else \<lparr>outcome = Some (Inl lastError), invocations = calls, delays = slept\<rparr>)"
  by pat_completeness auto
termination
  by (relation "measure (\<lambda>(config, originalMethod, random, attempt, lastError, calls, slept).
        Suc (maxRetries config) - attempt)") auto

declare RetryWithTimeout_loop.simps [simp del]

definition RetryWithTimeout ::
  "RetryConfig \<Rightarrow> (nat \<Rightarrow> 'a promise) \<Rightarrow> (nat \<Rightarrow> real) \<Rightarrow> 'a run" where
  "RetryWithTimeout config originalMethod random =
     RetryWithTimeout_loop config originalMethod random 0 Undefined 0 []"


section \<open>The stage calls (llm.service.ts)\<close>

text \<open>
  Both methods of \<^verbatim>\<open>LLMService\<close> are decorated with \<^verbatim>\<open>@Retry\<close>. The argument
  \<open>generateContent\<close> is what the successive calls of the remote model do.
\<close>

definition callGeminiFlashLiteWithPDF :: "(nat \<Rightarrow> 'a promise) \<Rightarrow> (nat \<Rightarrow> real) \<Rightarrow> 'a run" where
  "callGeminiFlashLiteWithPDF generateContent random =
     Retry PDF_RETRY_CONFIG generateContent random"

definition callGeminiFlash :: "(nat \<Rightarrow> 'a promise) \<Rightarrow> (nat \<Rightarrow> real) \<Rightarrow> 'a run" where
  "callGeminiFlash generateContent random =
     Retry TEXT_RETRY_CONFIG generateContent random"


section \<open>The job worker (EvaluationProcessor.process)\<close>

datatype Status = queued | processing | completed | failed

text \<open>
  The columns of an evaluation row that the worker reads or writes. The nullable columns
  are options; \<^verbatim>\<open>retry_count\<close> is an integer column with default 0; the timestamps are
  clock readings.
\<close>

record Evaluation =
  status :: Status
  cv_match_rate :: "real option"
  cv_feedback :: "string option"
  project_score :: "real option"
  project_feedback :: "string option"
  overall_summary :: "string option"
  started_at :: "nat option"
  completed_at :: "nat option"
  error_message :: "string option"
  retry_count :: int

text \<open>
  What reading a property of an object gives: \<^verbatim>\<open>undefined\<close> when the object has no such
  property, \<^verbatim>\<open>null\<close>, or a value.
\<close>

datatype 'a property = Absent | IsNull | Present 'a

text \<open>
  The object that \<^verbatim>\<open>performEvaluation\<close> resolves with, as far as the worker reads it.
  The worker copies the five properties without checking them, so each may be missing.
\<close>

record EvaluationResult =
  res_cv_match_rate :: "real property"
  res_cv_feedback :: "string property"
  res_project_score :: "real property"
  res_project_feedback :: "string property"
  res_overall_summary :: "string property"

definition is_present :: "'a property \<Rightarrow> bool" where
  "is_present p = (case p of Present v \<Rightarrow> True | _ \<Rightarrow> False)"

text \<open>A result that carries a value for each of the five properties.\<close>

definition result_complete :: "EvaluationResult \<Rightarrow> bool" where
  "result_complete result =
     (is_present (res_cv_match_rate result) \<and> is_present (res_cv_feedback result)
      \<and> is_present (res_project_score result) \<and> is_present (res_project_feedback result)
      \<and> is_present (res_overall_summary result))"

record EvaluationJobData =
  evaluationId :: nat
  jobTitle :: string
  cvId :: nat
  projectReportId :: nat

type_synonym evaluation_table = "nat \<rightharpoonup> Evaluation"

text \<open>
  \<^verbatim>\<open>prismaService.evaluation.update({ where: { id }, data })\<close> writes the given columns of
  one row in a single statement and rejects when no row has that id; the error it rejects
  with belongs to the database client and is the parameter \<open>notFound\<close>. A column whose
  entry in \<^verbatim>\<open>data\<close> is \<^verbatim>\<open>undefined\<close> is left as it is, \<^verbatim>\<open>null\<close> clears it, and a value is
  stored: \<open>write_column\<close> gives the new content of a nullable column from that entry and
  the old content.
\<close>

fun write_column :: "'a property \<Rightarrow> 'a option \<Rightarrow> 'a option" where
  "write_column Absent old = old"
| "write_column IsNull old = None"
| "write_column (Present v) old = Some v"

definition evaluation_update ::
  "failure \<Rightarrow> nat \<Rightarrow> (Evaluation \<Rightarrow> Evaluation) \<Rightarrow> evaluation_table \<Rightarrow> failure + evaluation_table"
where
  "evaluation_update notFound i data table =
     (case table i of
        None \<Rightarrow> Inl notFound
      | Some row \<Rightarrow> Inr (table(i \<mapsto> data row)))"

definition evaluation_findUnique :: "nat \<Rightarrow> evaluation_table \<Rightarrow> Evaluation option" where
  "evaluation_findUnique i table = table i"

text \<open>
  A run of \<^verbatim>\<open>process\<close>: \<open>writes\<close> lists the table after each successful update, in order;
  \<open>rejected\<close> is the value the returned promise rejects with, \<open>None\<close> when it resolves.
\<close>

record worker_run =
  writes :: "evaluation_table list"
  rejected :: "failure option"

text \<open>
  The \<^verbatim>\<open>catch (error)\<close> block of \<^verbatim>\<open>process\<close>. \<open>table\<close> is the table when the block is
  entered and \<open>written\<close> the writes made before; \<open>now\<close> is the reading of \<^verbatim>\<open>new Date()\<close>.
  \<^verbatim>\<open>isRetryableError(error)\<close> only feeds the log entry.
\<close>

definition process_catch ::
  "failure \<Rightarrow> nat \<Rightarrow> EvaluationJobData \<Rightarrow> evaluation_table \<Rightarrow> evaluation_table list \<Rightarrow> failure
     \<Rightarrow> worker_run"
where
  "process_catch notFound now job table written error =
     (case getErrorMessage error of
        Inl thrown \<Rightarrow> \<lparr>writes = written, rejected = Some thrown\<rparr>
      | Inr errorMessage \<Rightarrow>
          (let currentEvaluation = evaluation_findUnique (evaluationId job) table;
               newRetryCount =
                 (case currentEvaluation of None \<Rightarrow> 0 | Some row \<Rightarrow> retry_count row) + 1
           in case evaluation_update notFound (evaluationId job)
                     (\<lambda>row. row\<lparr>status := failed,
                                 error_message := Some errorMessage,
                                 retry_count := newRetryCount,
                                 completed_at := Some now\<rparr>) table of
                Inl dbError \<Rightarrow> \<lparr>writes = written, rejected = Some dbError\<rparr>
              | Inr table' \<Rightarrow> \<lparr>writes = written @ [table'], rejected = Some error\<rparr>))"

text \<open>
  \<^verbatim>\<open>process(job)\<close>. \<open>performEvaluation\<close> is the pipeline of \<^verbatim>\<open>EvaluateService\<close>, given by
  what its call settles with; \<open>startedNow\<close> and \<open>completedNow\<close> are the readings of
  \<^verbatim>\<open>new Date()\<close> for \<^verbatim>\<open>started_at\<close> and for \<^verbatim>\<open>completed_at\<close>.
\<close>

definition process ::
  "failure \<Rightarrow> (string \<Rightarrow> nat \<Rightarrow> nat \<Rightarrow> failure + EvaluationResult) \<Rightarrow> nat \<Rightarrow> nat
     \<Rightarrow> EvaluationJobData \<Rightarrow> evaluation_table \<Rightarrow> worker_run"
where
  "process notFound performEvaluation startedNow completedNow job table =
     (case evaluation_update notFound (evaluationId job)
             (\<lambda>row. row\<lparr>status := processing, started_at := Some startedNow\<rparr>) table of
        Inl error \<Rightarrow> process_catch notFound completedNow job table [] error
      | Inr table1 \<Rightarrow>
          (case performEvaluation (jobTitle job) (cvId job) (projectReportId job) of
             Inl error \<Rightarrow> process_catch notFound completedNow job table1 [table1] error
           | Inr result \<Rightarrow>
               (case evaluation_update notFound (evaluationId job)
                       (\<lambda>row. row\<lparr>status := completed,
                                   cv_match_rate :=
                                     write_column (res_cv_match_rate result) (cv_match_rate row),
                                   cv_feedback :=
                                     write_column (res_cv_feedback result) (cv_feedback row),
                                   project_score :=
                                     write_column (res_project_score result) (project_score row),
                                   project_feedback :=
                                     write_column (res_project_feedback result)
                                       (project_feedback row),
                                   overall_summary :=
                                     write_column (res_overall_summary result)
                                       (overall_summary row),
                                   completed_at := Some completedNow\<rparr>) table1 of
                  Inl error \<Rightarrow> process_catch notFound completedNow job table1 [table1] error
                | Inr table2 \<Rightarrow> \<lparr>writes = [table1, table2], rejected = None\<rparr>)))"

text \<open>The status of row \<open>i\<close> in a table.\<close>

definition status_of :: "nat \<Rightarrow> evaluation_table \<Rightarrow> Status option" where
  "status_of i table = map_option status (table i)"

text \<open>The five result columns of a row: all written, or none.\<close>

definition results_set :: "Evaluation \<Rightarrow> bool" where
  "results_set row =
     (cv_match_rate row \<noteq> None \<and> cv_feedback row \<noteq> None \<and> project_score row \<noteq> None
      \<and> project_feedback row \<noteq> None \<and> overall_summary row \<noteq> None)"

definition results_unset :: "Evaluation \<Rightarrow> bool" where
  "results_unset row =
     (cv_match_rate row = None \<and> cv_feedback row = None \<and> project_score row = None
      \<and> project_feedback row = None \<and> overall_summary row = None)"


section \<open>Sample values\<close>

text \<open>An HTTP 429 from the remote model, an HTTP 401, and a message that matches both a
  permanent pattern (\<^verbatim>\<open>unauthorized\<close>) and a retryable one (\<^verbatim>\<open>timeout\<close>).\<close>

definition rateLimited :: failure where
  "rateLimited =
     Obj \<lparr>err_status = Some 429, err_statusCode = None, err_response_status = None,
          err_response_data_message = None, err_message = Some ''Too Many Requests'',
          err_toString = ''Error: Too Many Requests'', err_code = None\<rparr>"

definition unauthorized :: failure where
  "unauthorized =
     Obj \<lparr>err_status = Some 401, err_statusCode = None, err_response_status = None,
          err_response_data_message = None, err_message = Some ''API key not valid'',
          err_toString = ''Error: API key not valid'', err_code = None\<rparr>"

definition bothPatterns :: error_obj where
  "bothPatterns =
     \<lparr>err_status = None, err_statusCode = None, err_response_status = None,
      err_response_data_message = None, err_message = Some ''Unauthorized: request timeout'',
      err_toString = ''Error: Unauthorized: request timeout'', err_code = None\<rparr>"

definition recordNotFound :: failure where
  "recordNotFound =
     Obj \<lparr>err_status = None, err_statusCode = None, err_response_status = None,
          err_response_data_message = None, err_message = Some ''Record to update not found.'',
          err_toString = ''PrismaClientKnownRequestError: Record to update not found.'',
          err_code = Some ''P2025''\<rparr>"

text \<open>A row as the request layer creates it, a row of a finished evaluation, a job, a
  pipeline result, and a result whose summary came back under another name, so that
  \<^verbatim>\<open>overall_summary\<close> is missing.\<close>

definition freshRow :: Evaluation where
  "freshRow =
     \<lparr>status = queued, cv_match_rate = None, cv_feedback = None, project_score = None,
      project_feedback = None, overall_summary = None, started_at = None,
      completed_at = None, error_message = None, retry_count = 0\<rparr>"

definition completedRow :: Evaluation where
  "completedRow =
     \<lparr>status = completed, cv_match_rate = Some 0.8, cv_feedback = Some ''Strong backend skills'',
      project_score = Some 4, project_feedback = Some ''Meets the brief'',
      overall_summary = Some ''Good fit'', started_at = Some 10,
      completed_at = Some 20, error_message = None, retry_count = 0\<rparr>"

definition sampleJob :: EvaluationJobData where
  "sampleJob = \<lparr>evaluationId = 1, jobTitle = ''Backend Engineer'', cvId = 1, projectReportId = 1\<rparr>"

definition sampleResult :: EvaluationResult where
  "sampleResult =
     \<lparr>res_cv_match_rate = Present 0.8, res_cv_feedback = Present ''Strong backend skills'',
      res_project_score = Present 4, res_project_feedback = Present ''Meets the brief'',
      res_overall_summary = Present ''Good fit''\<rparr>"

definition partialResult :: EvaluationResult where
  "partialResult =
     \<lparr>res_cv_match_rate = Present 0.8, res_cv_feedback = Present ''Strong backend skills'',
      res_project_score = Present 4, res_project_feedback = Present ''Meets the brief'',
      res_overall_summary = Absent\<rparr>"


section \<open>The error classifier\<close>

lemma retryable_is_object: "isRetryableError e \<Longrightarrow> \<exists>obj. e = Obj obj"
  by (cases e) simp_all

lemma rateLimited_retryable: "isRetryableError rateLimited"
  by (simp add: rateLimited_def statusCodeOf_def or_num_def
      NON_RETRYABLE_HTTP_STATUS_CODES_def RETRYABLE_HTTP_STATUS_CODES_def)

lemma unauthorized_permanent: "\<not> isRetryableError unauthorized"
  by (simp add: unauthorized_def statusCodeOf_def or_num_def
      NON_RETRYABLE_HTTP_STATUS_CODES_def)

lemma bothPatterns_permanent_pattern:
  "matchesPattern (toLowerCase (errorMessageOf bothPatterns)) NON_RETRYABLE_ERROR_PATTERNS"
  by code_simp

lemma bothPatterns_retryable_pattern:
  "matchesPattern (toLowerCase (errorMessageOf bothPatterns)) RETRYABLE_ERROR_PATTERNS"
  by code_simp

lemma bothPatterns_no_status: "\<not> truthy_num (statusCodeOf bothPatterns)"
  by (simp add: bothPatterns_def statusCodeOf_def or_num_def)

text \<open>
  C9. A failure whose status code does not decide (absent, zero, or in neither list of
  status codes) and whose lower-cased message contains a lower-cased permanent pattern
  and also a lower-cased retryable pattern is classified not retryable: the loop over
  \<^verbatim>\<open>NON_RETRYABLE_ERROR_PATTERNS\<close> runs and returns before the loop over
  \<^verbatim>\<open>RETRYABLE_ERROR_PATTERNS\<close>.
\<close>

theorem permanent_pattern_wins:
  assumes "\<not> (truthy_num (statusCodeOf error) \<and>
               (list_includes NON_RETRYABLE_HTTP_STATUS_CODES (statusCodeOf error)
                \<or> list_includes RETRYABLE_HTTP_STATUS_CODES (statusCodeOf error)))"
    and "matchesPattern (toLowerCase (errorMessageOf error)) NON_RETRYABLE_ERROR_PATTERNS"
    and "matchesPattern (toLowerCase (errorMessageOf error)) RETRYABLE_ERROR_PATTERNS"
  shows "isRetryableError (Obj error) = False"
  using assms by (auto simp add: Let_def)

theorem permanent_pattern_wins_witness:
  "\<not> (truthy_num (statusCodeOf bothPatterns) \<and>
        (list_includes NON_RETRYABLE_HTTP_STATUS_CODES (statusCodeOf bothPatterns)
         \<or> list_includes RETRYABLE_HTTP_STATUS_CODES (statusCodeOf bothPatterns)))
   \<and> matchesPattern (toLowerCase (errorMessageOf bothPatterns)) NON_RETRYABLE_ERROR_PATTERNS
   \<and> matchesPattern (toLowerCase (errorMessageOf bothPatterns)) RETRYABLE_ERROR_PATTERNS
   \<and> isRetryableError (Obj bothPatterns) = False"
proof -
  have h1: "\<not> (truthy_num (statusCodeOf bothPatterns) \<and>
        (list_includes NON_RETRYABLE_HTTP_STATUS_CODES (statusCodeOf bothPatterns)
         \<or> list_includes RETRYABLE_HTTP_STATUS_CODES (statusCodeOf bothPatterns)))"
    using bothPatterns_no_status by simp
  show ?thesis
    using h1 bothPatterns_permanent_pattern bothPatterns_retryable_pattern
      permanent_pattern_wins [OF h1 bothPatterns_permanent_pattern bothPatterns_retryable_pattern]
    by simp
qed


section \<open>Rounding to a double\<close>

lemma round_half_even_of_int [simp]: "round_half_even (of_int z) = z"
  by (simp add: round_half_even_def)

lemma round_half_even_bounds: "\<lfloor>y\<rfloor> \<le> round_half_even y" "round_half_even y \<le> \<lfloor>y\<rfloor> + 1"
  by (simp_all add: round_half_even_def Let_def)

lemma round_half_even_mono: "x \<le> y \<Longrightarrow> round_half_even x \<le> round_half_even y"
proof -
  assume xy: "x \<le> y"
  have fl: "\<lfloor>x\<rfloor> \<le> \<lfloor>y\<rfloor>" using xy by (rule floor_mono)
  show ?thesis
  proof (cases "\<lfloor>x\<rfloor> < \<lfloor>y\<rfloor>")
    case True
    have "round_half_even x \<le> \<lfloor>x\<rfloor> + 1" by (rule round_half_even_bounds)
    also have "\<dots> \<le> \<lfloor>y\<rfloor>" using True by simp
    also have "\<dots> \<le> round_half_even y" by (rule round_half_even_bounds)
    finally show ?thesis .
  next
    case False
    with fl have eq: "\<lfloor>x\<rfloor> = \<lfloor>y\<rfloor>" by simp
    then have "x - of_int \<lfloor>x\<rfloor> \<le> y - of_int \<lfloor>y\<rfloor>" using xy by simp
    then show ?thesis
      using eq by (auto simp add: round_half_even_def Let_def)
  qed
qed

lemma binade_from_ge: "k \<le> binade_from k x"
proof (induction k x rule: binade_from.induct)
  case (1 k x)
  then show ?case by (subst binade_from.simps) (auto simp del: binade_from.simps)
qed

lemma binade_from_le: "k \<le> 1024 \<Longrightarrow> binade_from k x \<le> 1024"
proof (induction k x rule: binade_from.induct)
  case (1 k x)
  then show ?case by (subst binade_from.simps) auto
qed

lemma binade_from_upper: "binade_from k x < 1024 \<Longrightarrow> x < 2 powi (binade_from k x + 1)"
proof (induction k x rule: binade_from.induct)
  case (1 k x)
  show ?case
  proof (cases "k < 1024 \<and> 2 powi (k + 1) \<le> x")
    case True
    then have eq: "binade_from k x = binade_from (k + 1) x"
      by (subst binade_from.simps) simp
    with 1 True show ?thesis by simp
  next
    case False
    then have eq: "binade_from k x = k"
      by (subst binade_from.simps) auto
    with 1(2) False show ?thesis by auto
  qed
qed

lemma binade_from_lower: "k < binade_from k x \<Longrightarrow> 2 powi (binade_from k x) \<le> x"
proof (induction k x rule: binade_from.induct)
  case (1 k x)
  show ?case
  proof (cases "k < 1024 \<and> 2 powi (k + 1) \<le> x")
    case True
    then have eq: "binade_from k x = binade_from (k + 1) x"
      by (subst binade_from.simps) simp
    show ?thesis
    proof (cases "k + 1 < binade_from (k + 1) x")
      case True
      with 1(1) \<open>k < 1024 \<and> 2 powi (k + 1) \<le> x\<close> eq show ?thesis by simp
    next
      case False
      with binade_from_ge [of "k + 1" x] have "binade_from (k + 1) x = k + 1" by simp
      with True eq show ?thesis by simp
    qed
  next
    case False
    then have "binade_from k x = k"
      by (subst binade_from.simps) auto
    with 1(2) show ?thesis by simp
  qed
qed

lemma binade_range: "- 1022 \<le> binade x" "binade x \<le> 1024"
  by (simp_all add: binade_def binade_from_ge binade_from_le)

lemma binade_upper: "binade x < 1024 \<Longrightarrow> x < 2 powi (binade x + 1)"
  unfolding binade_def by (rule binade_from_upper)

lemma binade_lower: "- 1022 < binade x \<Longrightarrow> 2 powi (binade x) \<le> x"
  unfolding binade_def by (rule binade_from_lower)

lemma binade_eq:
  assumes "- 1022 \<le> K" and "K \<le> 1024"
    and "- 1022 < K \<Longrightarrow> 2 powi K \<le> x"
    and "K < 1024 \<Longrightarrow> x < 2 powi (K + 1)"
  shows "binade x = K"
proof (rule ccontr)
  assume ne: "binade x \<noteq> K"
  show False
  proof (cases "binade x < K")
    case True
    then have "binade x < 1024" using assms(2) by simp
    then have "x < 2 powi (binade x + 1)" by (rule binade_upper)
    also have "\<dots> \<le> 2 powi K"
      using True by (intro power_int_increasing) auto
    also have "\<dots> \<le> x"
      using assms(3) True binade_range(1) [of x] by simp
    finally show False by simp
  next
    case False
    with ne have gt: "K < binade x" by simp
    then have "- 1022 < binade x" using assms(1) by simp
    then have "2 powi (binade x) \<le> x" by (rule binade_lower)
    moreover have "x < 2 powi (K + 1)"
      using assms(4) gt binade_range(2) [of x] by simp
    moreover have "(2::real) powi (K + 1) \<le> 2 powi (binade x)"
      using gt by (intro power_int_increasing) auto
    ultimately show False by simp
  qed
qed

lemma binade_mono: "x \<le> y \<Longrightarrow> binade x \<le> binade y"
proof (rule ccontr)
  assume xy: "x \<le> y" and "\<not> binade x \<le> binade y"
  then have gt: "binade y < binade x" by simp
  then have "- 1022 < binade x" using binade_range(1) [of y] by simp
  then have "2 powi (binade x) \<le> x" by (rule binade_lower)
  moreover have "binade y < 1024" using gt binade_range(2) [of x] by simp
  then have "y < 2 powi (binade y + 1)" by (rule binade_upper)
  moreover have "(2::real) powi (binade y + 1) \<le> 2 powi (binade x)"
    using gt by (intro power_int_increasing) auto
  ultimately show False using xy by simp
qed

lemma two_powi_pos: "0 < (2::real) powi k"
  by (simp add: zero_less_power_int)

lemma two_powi_split_53: "(2::real) powi (k + 1) = 2 ^ 53 * 2 powi (k - 52)"
proof -
  have "k + 1 = 53 + (k - 52)" by simp
  then have "(2::real) powi (k + 1) = 2 powi (53 + (k - 52))" by (rule arg_cong)
  also have "\<dots> = 2 powi 53 * 2 powi (k - 52)" by (rule power_int_add) simp
  finally show ?thesis by simp
qed

lemma two_powi_split_52: "(2::real) powi k = 2 ^ 52 * 2 powi (k - 52)"
proof -
  have "k = 52 + (k - 52)" by simp
  then have "(2::real) powi k = 2 powi (52 + (k - 52))" by (rule arg_cong)
  also have "\<dots> = 2 powi 52 * 2 powi (k - 52)" by (rule power_int_add) simp
  finally show ?thesis by simp
qed

lemma round_pos_nonneg: "0 \<le> x \<Longrightarrow> 0 \<le> round_pos x"
proof -
  assume "0 \<le> x"
  then have "0 \<le> x / 2 powi (binade x - 52)"
    using two_powi_pos [of "binade x - 52"] by simp
  then have "0 \<le> \<lfloor>x / 2 powi (binade x - 52)\<rfloor>" by simp
  then have "0 \<le> round_half_even (x / 2 powi (binade x - 52))"
    using round_half_even_bounds(1) [of "x / 2 powi (binade x - 52)"] by linarith
  then show ?thesis
    using two_powi_pos [of "binade x - 52"] by (simp add: round_pos_def)
qed

lemma round_pos_le_next_power:
  assumes "0 \<le> x" and "binade x < 1024"
  shows "round_pos x \<le> 2 powi (binade x + 1)"
proof -
  let ?q = "(2::real) powi (binade x - 52)"
  have q: "0 < ?q" by (rule two_powi_pos)
  have "x < 2 powi (binade x + 1)" using assms(2) by (rule binade_upper)
  then have "x < 2 ^ 53 * ?q" by (simp add: two_powi_split_53)
  then have "x / ?q < 2 ^ 53" using q by (simp add: pos_divide_less_eq)
  then have "\<lfloor>x / ?q\<rfloor> < 2 ^ 53" by (simp add: floor_less_iff)
  then have "round_half_even (x / ?q) \<le> 2 ^ 53"
    using round_half_even_bounds(2) [of "x / ?q"] by linarith
  then have "real_of_int (round_half_even (x / ?q)) \<le> 2 ^ 53"
    by (metis of_int_le_iff of_int_numeral of_int_power)
  then have "real_of_int (round_half_even (x / ?q)) * ?q \<le> 2 ^ 53 * ?q"
    using q by (intro mult_right_mono) auto
  then show ?thesis
    by (simp add: round_pos_def two_powi_split_53)
qed

lemma round_pos_ge_power:
  assumes "- 1022 < binade x"
  shows "2 powi (binade x) \<le> round_pos x"
proof -
  let ?q = "(2::real) powi (binade x - 52)"
  have q: "0 < ?q" by (rule two_powi_pos)
  have "2 powi (binade x) \<le> x" using assms by (rule binade_lower)
  then have "2 ^ 52 * ?q \<le> x" using two_powi_split_52 [of "binade x"] by simp
  then have "2 ^ 52 \<le> x / ?q" using q by (simp add: pos_le_divide_eq)
  then have "2 ^ 52 \<le> \<lfloor>x / ?q\<rfloor>" by (simp add: le_floor_iff)
  then have "2 ^ 52 \<le> round_half_even (x / ?q)"
    using round_half_even_bounds(1) [of "x / ?q"] by linarith
  then have "2 ^ 52 \<le> real_of_int (round_half_even (x / ?q))"
    by (metis of_int_le_iff of_int_numeral of_int_power)
  then have "2 ^ 52 * ?q \<le> real_of_int (round_half_even (x / ?q)) * ?q"
    using q by (intro mult_right_mono) auto
  then show ?thesis
    using two_powi_split_52 [of "binade x"] by (simp add: round_pos_def)
qed

lemma round_pos_mono:
  assumes "0 \<le> x" and "x \<le> y"
  shows "round_pos x \<le> round_pos y"
proof (cases "binade x = binade y")
  case True
  let ?q = "(2::real) powi (binade y - 52)"
  have q: "0 < ?q" by (rule two_powi_pos)
  have "x / ?q \<le> y / ?q" using assms(2) q by (simp add: divide_right_mono)
  then have "round_half_even (x / ?q) \<le> round_half_even (y / ?q)"
    by (rule round_half_even_mono)
  then have "real_of_int (round_half_even (x / ?q)) * ?q \<le> real_of_int (round_half_even (y / ?q)) * ?q"
    using q by (intro mult_right_mono) auto
  then show ?thesis by (simp add: round_pos_def True)
next
  case False
  with binade_mono [OF assms(2)] have lt: "binade x < binade y" by simp
  have "binade x < 1024" using lt binade_range(2) [of y] by simp
  then have "round_pos x \<le> 2 powi (binade x + 1)"
    using assms(1) by (intro round_pos_le_next_power)
  also have "\<dots> \<le> 2 powi (binade y)"
    using lt by (intro power_int_increasing) auto
  also have "\<dots> \<le> round_pos y"
    using lt binade_range(1) [of x] by (intro round_pos_ge_power) simp
  finally show ?thesis .
qed

lemma round_pos_exact:
  assumes "x / 2 powi (binade x - 52) = of_int m"
  shows "round_pos x = x"
proof -
  have "round_pos x = of_int m * 2 powi (binade x - 52)"
    by (simp add: round_pos_def assms)
  also have "\<dots> = x / 2 powi (binade x - 52) * 2 powi (binade x - 52)"
    by (simp add: assms)
  also have "\<dots> = x"
    using two_powi_pos [of "binade x - 52"] by simp
  finally show ?thesis .
qed

lemma round_pos_of_int:
  assumes "0 \<le> N" and "N \<le> 2 ^ 53"
  shows "round_pos (of_int N) = of_int N"
proof -
  let ?k = "binade (of_int N)"
  have k53: "?k \<le> 53"
  proof (rule ccontr)
    assume "\<not> ?k \<le> 53"
    then have gt: "53 < ?k" by simp
    then have "(2::real) powi ?k \<le> of_int N"
      by (intro binade_lower) simp
    moreover have "(2::real) powi 54 \<le> 2 powi ?k"
      using gt by (intro power_int_increasing) auto
    moreover have "real_of_int N \<le> 2 ^ 53"
      using assms(2) by (metis of_int_le_iff of_int_numeral of_int_power)
    ultimately show False by simp
  qed
  show ?thesis
  proof (cases "?k \<le> 52")
    case True
    have "(2::real) powi (52 - ?k) = 2 ^ nat (52 - ?k)"
      using True by (simp add: power_int_def)
    moreover have "real_of_int N / 2 powi (?k - 52) = of_int N * 2 powi (52 - ?k)"
      using power_int_minus [of "2::real" "?k - 52"] by (simp add: field_simps)
    ultimately have "real_of_int N / 2 powi (?k - 52) = of_int (N * 2 ^ nat (52 - ?k))"
      by simp
    then show ?thesis by (rule round_pos_exact)
  next
    case False
    with k53 have k: "?k = 53" by simp
    then have "(2::real) powi 53 \<le> of_int N"
      using binade_lower [of "of_int N"] by simp
    moreover have "real_of_int N \<le> 2 ^ 53"
      using assms(2) by (metis of_int_le_iff of_int_numeral of_int_power)
    ultimately have "real_of_int N = 2 ^ 53" by simp
    then have "real_of_int N / 2 powi (53 - 52) = of_int (2 ^ 52)"
      by simp
    then have "real_of_int N / 2 powi (?k - 52) = of_int (2 ^ 52)"
      unfolding k .
    then show ?thesis by (rule round_pos_exact)
  qed
qed

lemma round_pos_at:
  assumes "- 1022 \<le> K" and "K \<le> 1024"
    and "- 1022 < K \<Longrightarrow> 2 powi K \<le> x"
    and "K < 1024 \<Longrightarrow> x < 2 powi (K + 1)"
  shows "round_pos x = of_int (round_half_even (x / 2 powi (K - 52))) * 2 powi (K - 52)"
  using binade_eq [OF assms] by (simp add: round_pos_def)

text \<open>Rounding of a positive real, once its interval is known.\<close>

lemma round_double_pos:
  assumes "0 < x" and "round_pos x < 2 ^ 1024"
  shows "round_double x = Finite (round_pos x)"
  using assms by (simp add: round_double_def)

lemma round_double_of_int:
  assumes "0 \<le> N" and "N \<le> 2 ^ 53"
  shows "round_double (of_int N) = Finite (of_int N)"
proof (cases "N = 0")
  case True
  then show ?thesis by (simp add: round_double_def)
next
  case False
  have "real_of_int N \<le> 2 ^ 53"
    using assms(2) by (metis of_int_le_iff of_int_numeral of_int_power)
  then have "real_of_int N < 2 ^ 1024"
    by (rule order_le_less_trans) simp
  then show ?thesis
    using assms False by (simp add: round_double_def round_pos_of_int)
qed

lemma round_pos_half: "round_pos (1/2) = 1/2"
  by (subst round_pos_at [where K = "- 1"])
    (simp_all add: round_half_even_def power_int_minus_divide)

lemma round_pos_three_halves: "round_pos (3/2) = 3/2"
  by (subst round_pos_at [where K = 0])
    (simp_all add: round_half_even_def power_int_minus_divide)

text \<open>A positive real between two integers below \<open>2 ^ 53\<close> is rounded to a double between them.\<close>

lemma round_double_between:
  assumes "0 < x" and "0 \<le> L" and "of_int L \<le> x" and "x \<le> of_int U" and "U \<le> 2 ^ 53"
  shows "\<exists>p. round_double x = Finite p \<and> of_int L \<le> p \<and> p \<le> of_int U"
proof -
  have U0: "0 \<le> U"
    using assms(1,4) by (smt (verit) of_int_nonneg of_int_le_0_iff)
  have "of_int L = round_pos (of_int L)"
    using assms(2,3,4,5) by (intro round_pos_of_int [symmetric]) auto
  also have "\<dots> \<le> round_pos x"
    using assms(2,3) by (intro round_pos_mono) auto
  finally have lo: "of_int L \<le> round_pos x" .
  have "round_pos x \<le> round_pos (of_int U)"
    using assms(1,4) by (intro round_pos_mono) auto
  also have "\<dots> = of_int U"
    using U0 assms(5) by (rule round_pos_of_int)
  finally have hi: "round_pos x \<le> of_int U" .
  have "real_of_int U \<le> 2 ^ 53"
    using assms(5) by (metis of_int_le_iff of_int_numeral of_int_power)
  moreover have "(2::real) ^ 53 < 2 ^ 1024"
    by simp
  ultimately have "round_pos x < 2 ^ 1024"
    using hi by linarith
  then have "round_double x = Finite (round_pos x)"
    by (rule round_double_pos [OF assms(1)])
  with lo hi show ?thesis by blast
qed

text \<open>The jitter factor \<^verbatim>\<open>0.5 + Math.random()\<close> is a double in \<open>[0.5, 1.5]\<close>.\<close>

lemma jitterFactor_range:
  assumes "0 \<le> random" and "random < 1"
  shows "\<exists>f. num_add (Finite 0.5) (Finite random) = Finite f \<and> 1/2 \<le> f \<and> f \<le> 3/2"
proof -
  let ?x = "1/2 + random"
  have pos: "0 < ?x" using assms(1) by simp
  have "round_pos (1/2) \<le> round_pos ?x"
    using assms(1) by (intro round_pos_mono) auto
  then have lo: "1/2 \<le> round_pos ?x" by (simp add: round_pos_half)
  have "round_pos ?x \<le> round_pos (3/2)"
    using assms by (intro round_pos_mono) auto
  then have hi: "round_pos ?x \<le> 3/2" by (simp add: round_pos_three_halves)
  have "round_pos ?x < 2 ^ 1024"
    using hi by (rule order_le_less_trans) simp
  then have "round_double ?x = Finite (round_pos ?x)"
    by (rule round_double_pos [OF pos])
  with lo hi show ?thesis by auto
qed

lemma Math_min_Finite_le:
  assumes "Math_min e (Finite M) = Finite c"
  shows "c \<le> M"
  using assms by (cases e) auto


section \<open>The backoff delay\<close>

text \<open>
  C4, as stated, fails: the jitter factor multiplies the delay after the cap, so the
  returned delay can exceed \<^verbatim>\<open>maxDelayMs\<close>. With the PDF policy (cap 30000 ms), attempt 5
  and \<^verbatim>\<open>Math.random() = 0.75\<close> the delay is 37500 ms; every operation on the way is exact
  in double arithmetic.
\<close>

theorem calculateBackoffDelay_exceeds_maxDelayMs:
  "calculateBackoffDelay 5 PDF_RETRY_CONFIG (3/4) = Finite 37500
   \<and> maxDelayMs PDF_RETRY_CONFIG = Finite 30000"
proof -
  have pow: "Math_pow (Finite 2) 5 = Finite 32"
    using round_double_of_int [of 32] by (simp add: Math_pow_def)
  have "num_mul (Finite 1000) (Finite 32) = Finite 32000"
    using round_double_of_int [of 32000] by simp
  with pow have capped: "cappedDelay 5 PDF_RETRY_CONFIG = Finite 30000"
    by (simp add: cappedDelay_def exponentialDelay_def PDF_RETRY_CONFIG_def)
  have "round_pos (5/4) = 5/4"
    by (subst round_pos_at [where K = 0])
      (simp_all add: round_half_even_def power_int_minus_divide)
  then have jitter: "num_add (Finite 0.5) (Finite (3/4)) = Finite (5/4)"
    by (simp add: round_double_def)
  have "num_mul (Finite 30000) (Finite (5/4)) = Finite 37500"
    using round_double_of_int [of 37500] by simp
  with capped jitter show ?thesis
    by (simp add: calculateBackoffDelay_def PDF_RETRY_CONFIG_def)
qed

text \<open>
  C4, amended. Let \<open>c\<close> be the capped base delay as the code computes it in double
  arithmetic, \<^verbatim>\<open>Math.min(initialDelayMs * Math.pow(backoffMultiplier, n), maxDelayMs)\<close>.
  For every policy with jitter enabled and every attempt number \<open>n\<close> for which \<open>c\<close> is
  finite with \<open>0 \<le> c \<le> 2 ^ 52\<close>, and every value \<open>random\<close> in \<open>[0, 1)\<close> of the jitter
  source, the returned delay is an integer \<open>d\<close> with \<open>floor (c / 2) \<le> d \<le> ceiling (3 * c / 2)\<close>;
  hence \<open>d\<close> is at most \<open>ceiling (3 * maxDelayMs / 2)\<close> for a finite cap.
\<close>

theorem calculateBackoffDelay_jitter_bounds:
  assumes "enableJitter config" and "0 \<le> random" and "random < 1"
    and "cappedDelay n config = Finite c" and "0 \<le> c" and "c \<le> 2 ^ 52"
  shows "\<exists>d. calculateBackoffDelay n config random = Finite (of_int d)
           \<and> \<lfloor>c / 2\<rfloor> \<le> d \<and> d \<le> \<lceil>3 * c / 2\<rceil>
           \<and> (\<forall>M. maxDelayMs config = Finite M \<longrightarrow> d \<le> \<lceil>3 * M / 2\<rceil>)"
proof -
  obtain f where f: "num_add (Finite 0.5) (Finite random) = Finite f" "1/2 \<le> f" "f \<le> 3/2"
    using jitterFactor_range [OF assms(2,3)] by blast
  have calc: "calculateBackoffDelay n config random = Math_floor (round_double (c * f))"
    using assms(1,4) f(1) by (simp add: calculateBackoffDelay_def)
  have cap: "\<forall>M. maxDelayMs config = Finite M \<longrightarrow> \<lceil>3 * c / 2\<rceil> \<le> \<lceil>3 * M / 2\<rceil>"
  proof (intro allI impI)
    fix M
    assume "maxDelayMs config = Finite M"
    then have "c \<le> M"
      using assms(4) Math_min_Finite_le by (simp add: cappedDelay_def)
    then show "\<lceil>3 * c / 2\<rceil> \<le> \<lceil>3 * M / 2\<rceil>"
      by (intro ceiling_mono) simp
  qed
  show ?thesis
  proof (cases "c = 0")
    case True
    then have "calculateBackoffDelay n config random = Finite (of_int 0)"
      using calc by (simp add: round_double_def)
    moreover have "\<lfloor>c / 2\<rfloor> \<le> 0" "0 \<le> \<lceil>3 * c / 2\<rceil>"
      using True by simp_all
    ultimately show ?thesis
      using cap by (metis order_trans)
  next
    case False
    with assms(5) have cpos: "0 < c" by simp
    have pos: "0 < c * f"
      using cpos f(2) by simp
    have lo: "of_int \<lfloor>c / 2\<rfloor> \<le> c * f"
    proof -
      have "of_int \<lfloor>c / 2\<rfloor> \<le> c / 2" by (rule of_int_floor_le)
      also have "\<dots> = c * (1/2)" by simp
      also have "\<dots> \<le> c * f"
        using cpos f(2) by (intro mult_left_mono) auto
      finally show ?thesis .
    qed
    have hi: "c * f \<le> of_int \<lceil>3 * c / 2\<rceil>"
    proof -
      have "c * f \<le> c * (3/2)"
        using cpos f(3) by (intro mult_left_mono) auto
      also have "\<dots> = 3 * c / 2" by simp
      also have "\<dots> \<le> of_int \<lceil>3 * c / 2\<rceil>" by (rule le_of_int_ceiling)
      finally show ?thesis .
    qed
    have L0: "0 \<le> \<lfloor>c / 2\<rfloor>"
      using cpos by simp
    have U53: "\<lceil>3 * c / 2\<rceil> \<le> 2 ^ 53"
    proof -
      have "3 * c / 2 \<le> 2 ^ 53"
        using assms(6) by simp
      then have "3 * c / 2 \<le> of_int (2 ^ 53)"
        by simp
      then show ?thesis
        by (simp only: ceiling_le_iff)
    qed
    obtain p where p: "round_double (c * f) = Finite p"
      "of_int \<lfloor>c / 2\<rfloor> \<le> p" "p \<le> of_int \<lceil>3 * c / 2\<rceil>"
      using round_double_between [OF pos L0 lo hi U53] by blast
    have "calculateBackoffDelay n config random = Finite (of_int \<lfloor>p\<rfloor>)"
      using calc p(1) by simp
    moreover have "\<lfloor>c / 2\<rfloor> \<le> \<lfloor>p\<rfloor>"
      using p(2) by (simp add: le_floor_iff)
    moreover have "\<lfloor>p\<rfloor> \<le> \<lceil>3 * c / 2\<rceil>"
      using p(3) by (simp add: floor_le_iff)
    ultimately show ?thesis
      using cap by (metis order_trans)
  qed
qed

theorem calculateBackoffDelay_jitter_bounds_witness:
  "enableJitter PDF_RETRY_CONFIG \<and> (0::real) \<le> 1/4 \<and> (1/4::real) < 1
   \<and> cappedDelay 2 PDF_RETRY_CONFIG = Finite 4000 \<and> (0::real) \<le> 4000 \<and> (4000::real) \<le> 2 ^ 52
   \<and> maxDelayMs PDF_RETRY_CONFIG = Finite 30000
   \<and> (\<exists>d. calculateBackoffDelay 2 PDF_RETRY_CONFIG (1/4) = Finite (of_int d)
         \<and> 2000 \<le> d \<and> d \<le> 6000 \<and> d \<le> 45000)"
proof -
  have h1: "enableJitter PDF_RETRY_CONFIG" by (simp add: PDF_RETRY_CONFIG_def)
  have h2: "(0::real) \<le> 1/4" by simp
  have h3: "(1/4::real) < 1" by simp
  have pow: "Math_pow (Finite 2) 2 = Finite 4"
    using round_double_of_int [of 4] by (simp add: Math_pow_def)
  have "num_mul (Finite 1000) (Finite 4) = Finite 4000"
    using round_double_of_int [of 4000] by simp
  with pow have h4: "cappedDelay 2 PDF_RETRY_CONFIG = Finite 4000"
    by (simp add: cappedDelay_def exponentialDelay_def PDF_RETRY_CONFIG_def)
  have h5: "(0::real) \<le> 4000" by simp
  have h6: "(4000::real) \<le> 2 ^ 52" by simp
  have m: "maxDelayMs PDF_RETRY_CONFIG = Finite 30000" by (simp add: PDF_RETRY_CONFIG_def)
  obtain d where d: "calculateBackoffDelay 2 PDF_RETRY_CONFIG (1/4) = Finite (of_int d)"
    "\<lfloor>(4000::real) / 2\<rfloor> \<le> d" "d \<le> \<lceil>3 * (4000::real) / 2\<rceil>"
    "\<forall>M. maxDelayMs PDF_RETRY_CONFIG = Finite M \<longrightarrow> d \<le> \<lceil>3 * M / 2\<rceil>"
    using calculateBackoffDelay_jitter_bounds [OF h1 h2 h3 h4 h5 h6] by blast
  from d(4) m have "d \<le> \<lceil>3 * (30000::real) / 2\<rceil>" by blast
  then have "d \<le> 45000" by simp
  moreover from d(2) have "2000 \<le> d" by simp
  moreover from d(3) have "d \<le> 6000" by simp
  ultimately show ?thesis
    using h1 h2 h3 h4 h5 h6 m d(1) by blast
qed

text \<open>
  The rounding of the product shows at \<^verbatim>\<open>Math.random() = 274719577269600 / 2 ^ 52\<close>: the
  exact product lies just below 561 and its double is 561. A policy with
  \<^verbatim>\<open>initialDelayMs = 0\<close> yields \<^verbatim>\<open>NaN\<close> once the power overflows.
\<close>

lemma calculateBackoffDelay_rounds_up:
  "calculateBackoffDelay 0 PDF_RETRY_CONFIG (274719577269600 / 2 ^ 52) = Finite 561"
proof -
  have "num_mul (Finite 1000) (Finite 1) = Finite 1000"
    using round_double_of_int [of 1000] by simp
  then have capped: "cappedDelay 0 PDF_RETRY_CONFIG = Finite 1000"
    by (simp add: cappedDelay_def exponentialDelay_def PDF_RETRY_CONFIG_def Math_pow_def)
  have "round_pos (1/2 + 274719577269600 / 2 ^ 52) = 1/2 + 274719577269600 / 2 ^ 52"
    by (subst round_pos_at [where K = "- 1"])
      (simp_all add: round_half_even_def power_int_minus_divide)
  then have jitter: "num_add (Finite 0.5) (Finite (274719577269600 / 2 ^ 52))
      = Finite (1/2 + 274719577269600 / 2 ^ 52)"
    by (simp add: round_double_def)
  have "round_pos (1000 * (1/2 + 274719577269600 / 2 ^ 52)) = 561"
    by (subst round_pos_at [where K = 9])
      (simp_all add: round_half_even_def power_int_minus_divide)
  then have "num_mul (Finite 1000) (Finite (1/2 + 274719577269600 / 2 ^ 52)) = Finite 561"
    by (simp add: round_double_def)
  with capped jitter show ?thesis
    by (simp add: calculateBackoffDelay_def PDF_RETRY_CONFIG_def)
qed

lemma calculateBackoffDelay_NaN:
  "calculateBackoffDelay 1100 (PDF_RETRY_CONFIG\<lparr>initialDelayMs := Finite 0\<rparr>) random = NaN"
proof -
  have "round_pos (2 ^ 1100) = 2 ^ 1100"
    by (subst round_pos_at [where K = 1024])
      (simp_all add: round_half_even_def power_int_minus_divide)
  then have "Math_pow (Finite 2) 1100 = PosInfinity"
    by (simp add: Math_pow_def round_double_def)
  then show ?thesis
    by (simp add: calculateBackoffDelay_def cappedDelay_def exponentialDelay_def
        PDF_RETRY_CONFIG_def signed_infinity_def)
qed

section \<open>The call executor\<close>

lemma createErrorContext_object: "\<exists>ctx. createErrorContext (Obj obj) a m = Inr ctx"
  by (simp add: createErrorContext_def)

lemma Retry_loop_resolved:
  assumes "originalMethod calls = Resolved t v" and "attempt \<le> maxRetries config"
  shows "Retry_loop config originalMethod random attempt lastError calls slept =
         \<lparr>outcome = Some (Inr v), invocations = calls + 1, delays = slept\<rparr>"
  using assms by (subst Retry_loop.simps) (simp add: Let_def)

lemma Retry_loop_rejected_retry:
  assumes "originalMethod calls = Rejected t e" and "isRetryableError e"
    and "attempt < maxRetries config"
  shows "Retry_loop config originalMethod random attempt lastError calls slept =
         Retry_loop config originalMethod random (attempt + 1) e (calls + 1)
           (slept @ [calculateBackoffDelay attempt config (random attempt)])"
proof -
  obtain obj where "e = Obj obj"
    using assms(2) retryable_is_object by blast
  then obtain ctx where "createErrorContext e attempt (maxRetries config) = Inr ctx"
    using createErrorContext_object by blast
  then show ?thesis
    using assms by (subst Retry_loop.simps) (simp add: Let_def)
qed

lemma Retry_loop_rejected_last:
  assumes "originalMethod calls = Rejected t (Obj obj)"
  shows "Retry_loop config originalMethod random (maxRetries config) lastError calls slept =
         \<lparr>outcome = Some (Inl (Obj obj)), invocations = calls + 1, delays = slept\<rparr>"
proof -
  obtain ctx where
    "createErrorContext (Obj obj) (maxRetries config) (maxRetries config) = Inr ctx"
    using createErrorContext_object by blast
  then show ?thesis
    using assms by (subst Retry_loop.simps) (simp add: Let_def)
qed

lemma Retry_loop_rejected_permanent:
  assumes "originalMethod calls = Rejected t (Obj obj)" and "\<not> isRetryableError (Obj obj)"
    and "attempt \<le> maxRetries config"
  shows "Retry_loop config originalMethod random attempt lastError calls slept =
         \<lparr>outcome = Some (Inl (Obj obj)), invocations = calls + 1, delays = slept\<rparr>"
proof -
  obtain ctx where "createErrorContext (Obj obj) attempt (maxRetries config) = Inr ctx"
    using createErrorContext_object by blast
  then show ?thesis
    using assms by (subst Retry_loop.simps) (simp add: Let_def)
qed

lemma Retry_loop_rejected_nullish:
  assumes "originalMethod calls = Rejected t e" and "getErrorMessage e = Inl thrown"
    and "attempt \<le> maxRetries config"
  shows "Retry_loop config originalMethod random attempt lastError calls slept =
         \<lparr>outcome = Some (Inl thrown), invocations = calls + 1, delays = slept\<rparr>"
  using assms by (subst Retry_loop.simps) (simp add: createErrorContext_def Let_def)

text \<open>\<open>k\<close> retryable failures from the current attempt on lead to attempt \<open>attempt + k\<close>.\<close>

lemma Retry_loop_after_retryable_failures:
  assumes "attempt + k \<le> maxRetries config"
    and "\<forall>i<k. \<exists>t e. originalMethod (calls + i) = Rejected t e \<and> isRetryableError e"
  shows "\<exists>lastError'.
           Retry_loop config originalMethod random attempt lastError calls slept =
           Retry_loop config originalMethod random (attempt + k) lastError' (calls + k)
             (slept @ map (\<lambda>n. calculateBackoffDelay n config (random n))
                        [attempt..<attempt + k])"
  using assms
proof (induction k arbitrary: attempt lastError calls slept)
  case 0
  then show ?case by auto
next
  case (Suc k)
  from Suc.prems(2) obtain t0 e0 where
    first: "originalMethod calls = Rejected t0 e0" "isRetryableError e0"
    by force
  have rest: "\<forall>i<k. \<exists>t e. originalMethod (calls + 1 + i) = Rejected t e \<and> isRetryableError e"
    using Suc.prems(2) by (metis Suc_less_eq add.assoc plus_1_eq_Suc)
  have step: "Retry_loop config originalMethod random attempt lastError calls slept =
      Retry_loop config originalMethod random (attempt + 1) e0 (calls + 1)
        (slept @ [calculateBackoffDelay attempt config (random attempt)])"
    using first Suc.prems(1) by (intro Retry_loop_rejected_retry) auto
  have "\<exists>lastError'.
      Retry_loop config originalMethod random (attempt + 1) e0 (calls + 1)
        (slept @ [calculateBackoffDelay attempt config (random attempt)]) =
      Retry_loop config originalMethod random (attempt + 1 + k) lastError' (calls + 1 + k)
        ((slept @ [calculateBackoffDelay attempt config (random attempt)]) @
         map (\<lambda>n. calculateBackoffDelay n config (random n)) [attempt + 1..<attempt + 1 + k])"
    using Suc.prems(1) rest by (intro Suc.IH) auto
  then obtain lastError' where tail:
    "Retry_loop config originalMethod random (attempt + 1) e0 (calls + 1)
        (slept @ [calculateBackoffDelay attempt config (random attempt)]) =
      Retry_loop config originalMethod random (attempt + 1 + k) lastError' (calls + 1 + k)
        ((slept @ [calculateBackoffDelay attempt config (random attempt)]) @
         map (\<lambda>n. calculateBackoffDelay n config (random n)) [attempt + 1..<attempt + 1 + k])"
    by blast
  have idx: "[attempt..<attempt + Suc k] = attempt # [attempt + 1..<attempt + 1 + k]"
    by (simp add: upt_conv_Cons)
  have "Retry_loop config originalMethod random attempt lastError calls slept =
      Retry_loop config originalMethod random (attempt + Suc k) lastError' (calls + Suc k)
        (slept @ map (\<lambda>n. calculateBackoffDelay n config (random n)) [attempt..<attempt + Suc k])"
    unfolding idx using step tail by simp
  then show ?case
    by blast
qed

lemma Retry_after_retryable_failures:
  assumes "k \<le> maxRetries config"
    and "\<forall>i<k. \<exists>t e. originalMethod i = Rejected t e \<and> isRetryableError e"
  shows "\<exists>lastError'.
           Retry config originalMethod random =
           Retry_loop config originalMethod random k lastError' k
             (map (\<lambda>n. calculateBackoffDelay n config (random n)) [0..<k])"
  using Retry_loop_after_retryable_failures
    [of 0 k config originalMethod 0 random Undefined "[]"] assms
  by (simp add: Retry_def)

text \<open>
  C5. When the first \<open>k\<close> invocations reject with failures that the classifier calls
  retryable, invocation \<open>k\<close> resolves with \<open>v\<close>, and \<open>k < maxRetries\<close>, the decorated call
  resolves with \<open>v\<close>, has invoked the method exactly \<open>k + 1\<close> times, and has slept \<open>k\<close> times.
\<close>

theorem Retry_recovers_after_retryable_failures:
  assumes "k < maxRetries config"
    and "\<forall>i<k. \<exists>t e. originalMethod i = Rejected t e \<and> isRetryableError e"
    and "originalMethod k = Resolved t v"
  shows "outcome (Retry config originalMethod random) = Some (Inr v)
         \<and> invocations (Retry config originalMethod random) = k + 1
         \<and> length (delays (Retry config originalMethod random)) = k"
proof -
  have le: "k \<le> maxRetries config"
    using assms(1) by simp
  obtain lastError' where
    "Retry config originalMethod random =
       Retry_loop config originalMethod random k lastError' k
         (map (\<lambda>n. calculateBackoffDelay n config (random n)) [0..<k])"
    using Retry_after_retryable_failures [OF le assms(2)] by blast
  then have "Retry config originalMethod random =
      \<lparr>outcome = Some (Inr v), invocations = k + 1,
       delays = map (\<lambda>n. calculateBackoffDelay n config (random n)) [0..<k]\<rparr>"
    using Retry_loop_resolved
      [where originalMethod = originalMethod and calls = k and t = t and v = v
         and attempt = k and config = config]
      assms(3) le
    by simp
  then show ?thesis
    by simp
qed

theorem Retry_recovers_after_retryable_failures_witness:
  "3 < maxRetries PDF_RETRY_CONFIG
   \<and> isRetryableError rateLimited
   \<and> (\<lambda>i::nat. if i < 3 then Rejected 200 rateLimited else Resolved 1500 ''ok'') (3::nat)
       = Resolved 1500 ''ok''
   \<and> outcome (Retry PDF_RETRY_CONFIG
        (\<lambda>i::nat. if i < 3 then Rejected 200 rateLimited else Resolved 1500 ''ok'') (\<lambda>n. 1/2))
       = Some (Inr ''ok'')
   \<and> invocations (Retry PDF_RETRY_CONFIG
        (\<lambda>i::nat. if i < 3 then Rejected 200 rateLimited else Resolved 1500 ''ok'') (\<lambda>n. 1/2)) = 4"
proof -
  let ?op = "\<lambda>i::nat. if i < 3 then Rejected 200 rateLimited else Resolved 1500 ''ok''"
  have h1: "3 < maxRetries PDF_RETRY_CONFIG"
    by (simp add: PDF_RETRY_CONFIG_def)
  have h2: "\<forall>i<3. \<exists>t e. ?op i = Rejected t e \<and> isRetryableError e"
    using rateLimited_retryable by simp
  have h3: "?op 3 = Resolved 1500 ''ok''"
    by simp
  show ?thesis
    using h1 h3 rateLimited_retryable
      Retry_recovers_after_retryable_failures [OF h1 h2 h3, of "\<lambda>n. 1/2"]
    by simp
qed

text \<open>
  C6. When every invocation up to attempt \<open>maxRetries\<close> rejects with a failure that the
  classifier calls retryable, the decorated call invokes the method exactly
  \<open>maxRetries + 1\<close> times, sleeps \<open>maxRetries\<close> times in between, and rejects with the
  failure of the last invocation.
\<close>

theorem Retry_exhausts_on_retryable_failures:
  assumes "\<forall>i\<le>maxRetries config. \<exists>t e. originalMethod i = Rejected t e \<and> isRetryableError e"
  shows "\<exists>t e. originalMethod (maxRetries config) = Rejected t e
         \<and> outcome (Retry config originalMethod random) = Some (Inl e)
         \<and> invocations (Retry config originalMethod random) = maxRetries config + 1
         \<and> length (delays (Retry config originalMethod random)) = maxRetries config"
proof -
  obtain t e where last: "originalMethod (maxRetries config) = Rejected t e" "isRetryableError e"
    using assms by blast
  obtain obj where obj: "e = Obj obj"
    using last(2) retryable_is_object by blast
  have before: "\<forall>i<maxRetries config. \<exists>t e. originalMethod i = Rejected t e \<and> isRetryableError e"
    using assms by simp
  obtain lastError' where
    "Retry config originalMethod random =
       Retry_loop config originalMethod random (maxRetries config) lastError' (maxRetries config)
         (map (\<lambda>n. calculateBackoffDelay n config (random n)) [0..<maxRetries config])"
    using Retry_after_retryable_failures [OF order_refl before] by blast
  then have "Retry config originalMethod random =
      \<lparr>outcome = Some (Inl e), invocations = maxRetries config + 1,
       delays = map (\<lambda>n. calculateBackoffDelay n config (random n)) [0..<maxRetries config]\<rparr>"
    using Retry_loop_rejected_last
      [where originalMethod = originalMethod and calls = "maxRetries config" and t = t
         and obj = obj and config = config]
      last(1) obj
    by simp
  then show ?thesis
    using last(1) by simp
qed

theorem Retry_exhausts_on_retryable_failures_witness:
  "isRetryableError rateLimited
   \<and> maxRetries PDF_RETRY_CONFIG = 4
   \<and> outcome (Retry PDF_RETRY_CONFIG (\<lambda>i::nat. Rejected 200 rateLimited :: string promise) (\<lambda>n. 1/2))
       = Some (Inl rateLimited)
   \<and> invocations (Retry PDF_RETRY_CONFIG (\<lambda>i::nat. Rejected 200 rateLimited :: string promise) (\<lambda>n. 1/2))
       = 5"
proof -
  have h: "\<forall>i\<le>maxRetries PDF_RETRY_CONFIG. \<exists>t e.
       (\<lambda>i::nat. Rejected 200 rateLimited :: string promise) i = Rejected t e \<and> isRetryableError e"
    using rateLimited_retryable by simp
  have m: "maxRetries PDF_RETRY_CONFIG = 4"
    by (simp add: PDF_RETRY_CONFIG_def)
  show ?thesis
    using rateLimited_retryable m Retry_exhausts_on_retryable_failures [OF h, of "\<lambda>n. 1/2"]
    by auto
qed


text \<open>
  C10. The classifier answers "not retryable" for \<^verbatim>\<open>null\<close> and \<^verbatim>\<open>undefined\<close> by its first
  test. A decorated call in which invocation \<open>k\<close> rejects with one of them (after \<open>k\<close>
  retryable failures, \<open>k = 0\<close> being the first attempt) makes no further invocation and
  no further sleep.
\<close>

theorem nullish_failure_never_retried:
  assumes "e = Null \<or> e = Undefined" and "k \<le> maxRetries config"
    and "\<forall>i<k. \<exists>t' e'. originalMethod i = Rejected t' e' \<and> isRetryableError e'"
    and "originalMethod k = Rejected t e"
  shows "isRetryableError e = False
       \<and> invocations (Retry config originalMethod random) = k + 1
       \<and> length (delays (Retry config originalMethod random)) = k"
proof -
  obtain thrown where thrown: "getErrorMessage e = Inl thrown"
    using assms(1) by auto
  obtain lastError' where
    "Retry config originalMethod random =
       Retry_loop config originalMethod random k lastError' k
         (map (\<lambda>n. calculateBackoffDelay n config (random n)) [0..<k])"
    using Retry_after_retryable_failures [OF assms(2,3)] by blast
  then have "Retry config originalMethod random =
      \<lparr>outcome = Some (Inl thrown), invocations = k + 1,
       delays = map (\<lambda>n. calculateBackoffDelay n config (random n)) [0..<k]\<rparr>"
    using Retry_loop_rejected_nullish
      [where originalMethod = originalMethod and calls = k and t = t and e = e
         and thrown = thrown and attempt = k and config = config]
      assms(2,4) thrown
    by simp
  then show ?thesis
    using assms(1) by auto
qed

theorem nullish_failure_never_retried_witness:
  "(Null = Null \<or> Null = Undefined) \<and> 1 \<le> maxRetries PDF_RETRY_CONFIG
   \<and> isRetryableError rateLimited
   \<and> (\<lambda>i::nat. if i < 1 then Rejected 200 rateLimited
                 else (Rejected 200 Null :: string promise)) 1 = Rejected 200 Null
   \<and> isRetryableError Null = False
   \<and> invocations (Retry PDF_RETRY_CONFIG
        (\<lambda>i::nat. if i < 1 then Rejected 200 rateLimited else (Rejected 200 Null :: string promise))
        (\<lambda>n. 0)) = 2"
proof -
  let ?op = "\<lambda>i::nat. if i < 1 then Rejected 200 rateLimited else (Rejected 200 Null :: string promise)"
  have h1: "Null = Null \<or> Null = Undefined"
    by simp
  have h2: "1 \<le> maxRetries PDF_RETRY_CONFIG"
    by (simp add: PDF_RETRY_CONFIG_def)
  have h3: "\<forall>i<1::nat. \<exists>t' e'. ?op i = Rejected t' e' \<and> isRetryableError e'"
    using rateLimited_retryable by simp
  have h4: "?op 1 = Rejected 200 Null"
    by simp
  show ?thesis
    using h1 h2 h4 rateLimited_retryable
      nullish_failure_never_retried [OF h1 h2 h3 h4, of "\<lambda>n. 0"]
    by simp
qed

text \<open>
  An error object that the classifier calls permanent on the first attempt is propagated
  as it is, after one invocation and without any sleep.
\<close>

lemma Retry_permanent_object_propagated:
  assumes "originalMethod 0 = Rejected t (Obj obj)" and "\<not> isRetryableError (Obj obj)"
  shows "Retry config originalMethod random =
         \<lparr>outcome = Some (Inl (Obj obj)), invocations = 1, delays = []\<rparr>"
  using Retry_loop_rejected_permanent [of originalMethod 0 t obj 0 config random Undefined "[]"]
    assms
  by (simp add: Retry_def)

lemma nullishTypeError_not_nullish:
  "nullishTypeError v \<noteq> Null" "nullishTypeError v \<noteq> Undefined"
  by (simp_all add: nullishTypeError_def Let_def)

text \<open>
  C7 at a first attempt that rejects with \<^verbatim>\<open>undefined\<close>: the classifier calls the failure
  permanent, the method is invoked once and nothing is slept, but the decorated call
  rejects with the \<^verbatim>\<open>TypeError\<close> that \<^verbatim>\<open>createErrorContext\<close> raised, not with the failure
  of the attempt.
\<close>

theorem Retry_undefined_failure_replaced:
  "isRetryableError Undefined = False
   \<and> Retry config (\<lambda>i. Rejected t Undefined) random =
       \<lparr>outcome = Some (Inl (nullishTypeError ''undefined'')), invocations = 1, delays = []\<rparr>
   \<and> nullishTypeError ''undefined'' \<noteq> Undefined"
proof -
  have "Retry config (\<lambda>i. Rejected t Undefined) random =
       \<lparr>outcome = Some (Inl (nullishTypeError ''undefined'')), invocations = 0 + 1, delays = []\<rparr>"
    unfolding Retry_def
    by (rule Retry_loop_rejected_nullish [where t = t and e = Undefined]) simp_all
  then show ?thesis
    using nullishTypeError_not_nullish(2) by simp
qed


section \<open>The stage calls and the per-attempt deadline\<close>

lemma calculateBackoffDelay_timeoutMs:
  "calculateBackoffDelay n (config\<lparr>timeoutMs := d\<rparr>) r = calculateBackoffDelay n config r"
  by (simp add: calculateBackoffDelay_def cappedDelay_def exponentialDelay_def)

text \<open>The result of \<^verbatim>\<open>Retry(config)\<close> does not depend on \<^verbatim>\<open>config.timeoutMs\<close>.\<close>

lemma Retry_loop_ignores_timeoutMs:
  "Retry_loop (config\<lparr>timeoutMs := d\<rparr>) originalMethod random attempt lastError calls slept =
   Retry_loop config originalMethod random attempt lastError calls slept"
proof (induction config originalMethod random attempt lastError calls slept
    rule: Retry_loop.induct)
  case (1 config originalMethod random attempt lastError calls slept)
  show ?case
    apply (subst Retry_loop.simps)
    apply (subst (2) Retry_loop.simps)
    using 1 [where x = False and xa = True]
    apply (simp add: calculateBackoffDelay_timeoutMs Let_def split: promise.splits sum.splits)
    done
qed

lemma Retry_ignores_timeoutMs:
  "Retry (config\<lparr>timeoutMs := d\<rparr>) originalMethod random = Retry config originalMethod random"
  by (simp add: Retry_def Retry_loop_ignores_timeoutMs)

text \<open>An invocation that never settles leaves the stage call pending for ever.\<close>

lemma callGeminiFlash_pending:
  "outcome (callGeminiFlash (\<lambda>i. Pending) random) = None"
  unfolding callGeminiFlash_def Retry_def
  by (subst Retry_loop.simps) simp

text \<open>
  C1 at a remote call that resolves after 100 s, beyond the 90 s of the PDF policy and
  the 60 s of the text policy: each stage call returns that late result after one
  invocation; no timeout failure is produced and nothing reaches the classifier.
\<close>

theorem callGeminiFlashLiteWithPDF_no_deadline:
  "timeoutMs PDF_RETRY_CONFIG = 90000
   \<and> callGeminiFlashLiteWithPDF (\<lambda>i. Resolved 100000 v) random =
       \<lparr>outcome = Some (Inr v), invocations = 1, delays = []\<rparr>
   \<and> timeoutMs TEXT_RETRY_CONFIG = 60000
   \<and> callGeminiFlash (\<lambda>i. Resolved 100000 v) random =
       \<lparr>outcome = Some (Inr v), invocations = 1, delays = []\<rparr>"
  by (simp add: callGeminiFlashLiteWithPDF_def callGeminiFlash_def Retry_def
      Retry_loop_resolved [where t = 100000 and v = v] PDF_RETRY_CONFIG_def
      TEXT_RETRY_CONFIG_def)

text \<open>
  The sibling decorator \<^verbatim>\<open>RetryWithTimeout\<close> does produce the timeout failure on that
  input. Its message, \<^verbatim>\<open>Operation timed out after 1m 30s\<close>, matches no retryable pattern, so
  the classifier calls it permanent and the call is not retried.
\<close>

lemma formatDuration_PDF_timeout: "formatDuration 90000 = ''1m 30s''"
  by (simp add: formatDuration_def digit_char_def)

lemma timeoutError_PDF:
  "timeoutError PDF_RETRY_CONFIG =
     Obj \<lparr>err_status = None, err_statusCode = None, err_response_status = None,
          err_response_data_message = None,
          err_message = Some ''Operation timed out after 1m 30s'',
          err_toString = ''Error: Operation timed out after 1m 30s'', err_code = None\<rparr>"
  by (simp add: timeoutError_def PDF_RETRY_CONFIG_def formatDuration_PDF_timeout Let_def)

lemma timeoutError_PDF_permanent: "\<not> isRetryableError (timeoutError PDF_RETRY_CONFIG)"
  unfolding timeoutError_PDF by code_simp

lemma RetryWithTimeout_times_out:
  "RetryWithTimeout PDF_RETRY_CONFIG (\<lambda>i. Resolved 100000 v) random =
     \<lparr>outcome = Some (Inl (timeoutError PDF_RETRY_CONFIG)), invocations = 1, delays = []\<rparr>"
  unfolding RetryWithTimeout_def
  apply (subst RetryWithTimeout_loop.simps)
  using timeoutError_PDF_permanent
  apply (simp add: createErrorContext_def timeoutError_PDF)
  apply (simp add: PDF_RETRY_CONFIG_def)
  done



section \<open>The job worker\<close>

lemma getErrorMessage_object: "\<exists>m. getErrorMessage (Obj obj) = Inr m"
  by simp

text \<open>The three ways a run on an existing row can go.\<close>

lemma process_success:
  assumes "table (evaluationId job) = Some row"
    and "performEvaluation (jobTitle job) (cvId job) (projectReportId job) = Inr result"
  shows "process notFound performEvaluation startedNow completedNow job table =
     \<lparr>writes =
        [table(evaluationId job \<mapsto> row\<lparr>status := processing, started_at := Some startedNow\<rparr>),
         table(evaluationId job \<mapsto> row\<lparr>status := processing, started_at := Some startedNow\<rparr>
            \<lparr>status := completed,
             cv_match_rate := write_column (res_cv_match_rate result) (cv_match_rate row),
             cv_feedback := write_column (res_cv_feedback result) (cv_feedback row),
             project_score := write_column (res_project_score result) (project_score row),
             project_feedback := write_column (res_project_feedback result) (project_feedback row),
             overall_summary := write_column (res_overall_summary result) (overall_summary row),
             completed_at := Some completedNow\<rparr>)],
      rejected = None\<rparr>"
  using assms by (simp add: process_def evaluation_update_def)

lemma process_failure_recorded:
  assumes "table (evaluationId job) = Some row"
    and "performEvaluation (jobTitle job) (cvId job) (projectReportId job) = Inl error"
    and "getErrorMessage error = Inr errorMessage"
  shows "process notFound performEvaluation startedNow completedNow job table =
     \<lparr>writes =
        [table(evaluationId job \<mapsto> row\<lparr>status := processing, started_at := Some startedNow\<rparr>),
         table(evaluationId job \<mapsto> row\<lparr>status := processing, started_at := Some startedNow\<rparr>
            \<lparr>status := failed,
             error_message := Some errorMessage,
             retry_count := retry_count row + 1,
             completed_at := Some completedNow\<rparr>)],
      rejected = Some error\<rparr>"
  using assms
  by (simp add: process_def process_catch_def evaluation_update_def evaluation_findUnique_def)

lemma process_failure_unrecorded:
  assumes "table (evaluationId job) = Some row"
    and "performEvaluation (jobTitle job) (cvId job) (projectReportId job) = Inl error"
    and "getErrorMessage error = Inl thrown"
  shows "process notFound performEvaluation startedNow completedNow job table =
     \<lparr>writes =
        [table(evaluationId job \<mapsto> row\<lparr>status := processing, started_at := Some startedNow\<rparr>)],
      rejected = Some thrown\<rparr>"
  using assms
  by (simp add: process_def process_catch_def evaluation_update_def evaluation_findUnique_def)

text \<open>
  C8 at a pipeline that rejects with \<^verbatim>\<open>undefined\<close>: \<^verbatim>\<open>getErrorMessage\<close> throws inside the
  \<^verbatim>\<open>catch\<close> block, so no failure is recorded (the only write is the one that set
  \<^verbatim>\<open>processing\<close>) and the run rejects with the \<^verbatim>\<open>TypeError\<close>, not with the failure.
\<close>

theorem process_undefined_failure_unrecorded:
  "process notFound (\<lambda>title cv report. Inl Undefined) startedNow completedNow job
       (table(evaluationId job \<mapsto> row)) =
     \<lparr>writes =
        [table(evaluationId job \<mapsto> row\<lparr>status := processing, started_at := Some startedNow\<rparr>)],
      rejected = Some (nullishTypeError ''undefined'')\<rparr>"
  by (simp add: process_failure_unrecorded [where row = row and error = Undefined])

text \<open>
  C2, as stated, fails: a run on a row that is already \<^verbatim>\<open>completed\<close> first writes
  \<^verbatim>\<open>processing\<close>.
\<close>

theorem process_reenters_completed_row:
  "status_of 1 [1 \<mapsto> completedRow] = Some completed
   \<and> map (status_of 1)
       (writes (process recordNotFound (\<lambda>title cv report. Inr sampleResult) 30 40 sampleJob
          [1 \<mapsto> completedRow]))
     = [Some processing, Some completed]"
  by (simp add: process_success [where row = completedRow and result = sampleResult]
      sampleJob_def status_of_def completedRow_def)

text \<open>
  C2, amended. On an existing row, whatever its status at entry, a run whose pipeline
  returns a result or fails with an error object writes the status exactly twice: first
  \<^verbatim>\<open>processing\<close>, then the terminal status (\<^verbatim>\<open>completed\<close> on a result, \<^verbatim>\<open>failed\<close> on a
  failure); nothing is written after the terminal status.
\<close>

theorem process_status_sequence:
  assumes "table (evaluationId job) = Some row"
    and "\<forall>error. performEvaluation (jobTitle job) (cvId job) (projectReportId job) = Inl error
           \<longrightarrow> (\<exists>obj. error = Obj obj)"
  shows "map (status_of (evaluationId job))
           (writes (process notFound performEvaluation startedNow completedNow job table)) =
         [Some processing,
          Some (case performEvaluation (jobTitle job) (cvId job) (projectReportId job) of
                  Inr result \<Rightarrow> completed | Inl error \<Rightarrow> failed)]"
proof (cases "performEvaluation (jobTitle job) (cvId job) (projectReportId job)")
  case (Inr result)
  then show ?thesis
    using assms(1) by (simp add: process_success [where row = row] status_of_def)
next
  case (Inl error)
  then obtain obj where "error = Obj obj"
    using assms(2) by blast
  then obtain m where "getErrorMessage error = Inr m"
    using getErrorMessage_object by blast
  then show ?thesis
    using assms(1) Inl by (simp add: process_failure_recorded [where row = row] status_of_def)
qed

theorem process_status_sequence_witness:
  "[1 \<mapsto> freshRow] (evaluationId sampleJob) = Some freshRow
   \<and> (\<exists>obj. unauthorized = Obj obj)
   \<and> map (status_of (evaluationId sampleJob))
       (writes (process recordNotFound (\<lambda>title cv report. Inl unauthorized) 30 40 sampleJob
          [1 \<mapsto> freshRow]))
     = [Some processing, Some failed]"
proof -
  have h1: "[1 \<mapsto> freshRow] (evaluationId sampleJob) = Some freshRow"
    by (simp add: sampleJob_def)
  have h2: "\<forall>error. (\<lambda>title cv report. Inl unauthorized :: failure + EvaluationResult)
          (jobTitle sampleJob) (cvId sampleJob) (projectReportId sampleJob) = Inl error
        \<longrightarrow> (\<exists>obj. error = Obj obj)"
    by (simp add: unauthorized_def)
  have h3: "\<exists>obj. unauthorized = Obj obj"
    by (simp add: unauthorized_def)
  show ?thesis
    using h1 h3
      process_status_sequence [where table = "[1 \<mapsto> freshRow]" and job = sampleJob
        and row = freshRow and performEvaluation = "\<lambda>title cv report. Inl unauthorized"
        and notFound = recordNotFound and startedNow = 30 and completedNow = 40, OF h1 h2]
    by simp
qed

lemma write_column_present: "is_present p \<Longrightarrow> write_column p old \<noteq> None"
  by (cases p) (simp_all add: is_present_def)

lemma write_column_unset: "\<not> is_present p \<Longrightarrow> write_column p None = None"
  by (cases p) (simp_all add: is_present_def)

text \<open>
  C3, as stated, fails in two ways. The failure update leaves the result columns as they
  are, so a run on a row that already carries results (a finished evaluation delivered
  again) and whose pipeline fails ends with status \<^verbatim>\<open>failed\<close> and all five result columns
  set. And the success update copies the result unchecked, so a result without
  \<^verbatim>\<open>overall_summary\<close> ends, on a new row, with status \<^verbatim>\<open>completed\<close> and that column unset.
\<close>

theorem process_failed_with_results:
  "results_set completedRow
   \<and> (\<exists>row'. last (writes (process recordNotFound (\<lambda>title cv report. Inl unauthorized) 30 40
                               sampleJob [1 \<mapsto> completedRow])) 1 = Some row'
         \<and> status row' = failed \<and> results_set row')
   \<and> results_unset freshRow
   \<and> (\<exists>row'. last (writes (process recordNotFound (\<lambda>title cv report. Inr partialResult) 30 40
                               sampleJob [1 \<mapsto> freshRow])) 1 = Some row'
         \<and> status row' = completed \<and> overall_summary row' = None \<and> \<not> results_set row')"
proof -
  have "results_set completedRow
   \<and> (\<exists>row'. last (writes (process recordNotFound (\<lambda>title cv report. Inl unauthorized) 30 40
                               sampleJob [1 \<mapsto> completedRow])) 1 = Some row'
         \<and> status row' = failed \<and> results_set row')"
    by (simp add: process_failure_recorded
          [where row = completedRow and error = unauthorized and errorMessage = "''API key not valid''"]
        sampleJob_def unauthorized_def results_set_def completedRow_def del: not_None_eq)
  moreover have "results_unset freshRow"
    by (simp add: results_unset_def freshRow_def)
  moreover have "\<exists>row'. last (writes (process recordNotFound (\<lambda>title cv report. Inr partialResult)
                               30 40 sampleJob [1 \<mapsto> freshRow])) 1 = Some row'
         \<and> status row' = completed \<and> overall_summary row' = None \<and> \<not> results_set row'"
    by (simp add: process_success [where row = freshRow and result = partialResult]
        sampleJob_def partialResult_def results_set_def freshRow_def)
  ultimately show ?thesis
    by blast
qed

text \<open>
  C3, amended. On a row whose result columns and error message are unset at entry (as a
  newly created row is), every state that a run writes satisfies: with status
  \<^verbatim>\<open>completed\<close> it has no error message, and its five result columns are all set exactly
  when the pipeline's result carries a value for each of the five properties; with status
  \<^verbatim>\<open>failed\<close> none of the five is set; and when the pipeline fails or its result carries
  all five values, the five columns are all set or all unset in every state (they are
  written in the one update that sets \<^verbatim>\<open>completed\<close>).
\<close>

theorem process_results_exclusive:
  assumes "table (evaluationId job) = Some row"
    and "results_unset row" and "error_message row = None"
  shows "\<forall>table' \<in> set (writes (process notFound performEvaluation startedNow completedNow job table)).
           \<exists>row'. table' (evaluationId job) = Some row'
             \<and> (status row' = completed \<longrightarrow>
                   error_message row' = None
                   \<and> (\<exists>result. performEvaluation (jobTitle job) (cvId job) (projectReportId job)
                                  = Inr result
                         \<and> (results_set row' \<longleftrightarrow> result_complete result)))
             \<and> (status row' = failed \<longrightarrow> results_unset row')
             \<and> ((\<forall>result. performEvaluation (jobTitle job) (cvId job) (projectReportId job)
                              = Inr result \<longrightarrow> result_complete result)
                  \<longrightarrow> results_set row' \<or> results_unset row')"
proof (cases "performEvaluation (jobTitle job) (cvId job) (projectReportId job)")
  case (Inr result)
  let ?row2 = "row\<lparr>status := processing, started_at := Some startedNow\<rparr>
            \<lparr>status := completed,
             cv_match_rate := write_column (res_cv_match_rate result) (cv_match_rate row),
             cv_feedback := write_column (res_cv_feedback result) (cv_feedback row),
             project_score := write_column (res_project_score result) (project_score row),
             project_feedback := write_column (res_project_feedback result) (project_feedback row),
             overall_summary := write_column (res_overall_summary result) (overall_summary row),
             completed_at := Some completedNow\<rparr>"
  have iff: "results_set ?row2 \<longleftrightarrow> result_complete result"
  proof
    assume set: "results_set ?row2"
    show "result_complete result"
    proof (rule ccontr)
      assume "\<not> result_complete result"
      then consider "\<not> is_present (res_cv_match_rate result)"
        | "\<not> is_present (res_cv_feedback result)"
        | "\<not> is_present (res_project_score result)"
        | "\<not> is_present (res_project_feedback result)"
        | "\<not> is_present (res_overall_summary result)"
        by (auto simp add: result_complete_def)
      then show False
        using set assms(2)
        by cases (simp_all add: results_set_def results_unset_def write_column_unset)
    qed
  next
    assume "result_complete result"
    then show "results_set ?row2"
      by (simp add: result_complete_def results_set_def write_column_present del: not_None_eq)
  qed
  have first: "results_unset (row\<lparr>status := processing, started_at := Some startedNow\<rparr>)"
    using assms(2) by (simp add: results_unset_def)
  have run: "process notFound performEvaluation startedNow completedNow job table =
      \<lparr>writes =
         [table(evaluationId job \<mapsto> row\<lparr>status := processing, started_at := Some startedNow\<rparr>),
          table(evaluationId job \<mapsto> ?row2)],
       rejected = None\<rparr>"
    using assms(1) Inr by (rule process_success)
  show ?thesis
    unfolding run using iff first assms(3) Inr by (simp del: not_None_eq)
next
  case (Inl error)
  show ?thesis
  proof (cases "getErrorMessage error")
    case thrown: (Inl thrown)
    then show ?thesis
      using assms Inl
      by (simp add: process_failure_unrecorded [where row = row] results_set_def results_unset_def)
  next
    case msg: (Inr m)
    then show ?thesis
      using assms Inl
      by (simp add: process_failure_recorded [where row = row] results_set_def results_unset_def)
  qed
qed

theorem process_results_exclusive_witness:
  "[1 \<mapsto> freshRow] (evaluationId sampleJob) = Some freshRow
   \<and> results_unset freshRow \<and> error_message freshRow = None
   \<and> result_complete sampleResult
   \<and> (\<exists>row'. last (writes (process recordNotFound (\<lambda>title cv report. Inr sampleResult) 30 40
                               sampleJob [1 \<mapsto> freshRow])) (evaluationId sampleJob) = Some row'
         \<and> status row' = completed \<and> results_set row' \<and> error_message row' = None)"
proof -
  let ?run = "process recordNotFound (\<lambda>title cv report. Inr sampleResult) 30 40
                sampleJob [1 \<mapsto> freshRow]"
  have h1: "[1 \<mapsto> freshRow] (evaluationId sampleJob) = Some freshRow"
    by (simp add: sampleJob_def)
  have h2: "results_unset freshRow"
    by (simp add: results_unset_def freshRow_def)
  have h3: "error_message freshRow = None"
    by (simp add: freshRow_def)
  have complete: "result_complete sampleResult"
    by (simp add: result_complete_def sampleResult_def is_present_def)
  have written: "last (writes ?run) \<in> set (writes ?run)"
    by (simp add: process_success [where row = freshRow and result = sampleResult] sampleJob_def)
  have final: "status_of (evaluationId sampleJob) (last (writes ?run)) = Some completed"
    by (simp add: process_success [where row = freshRow and result = sampleResult]
        sampleJob_def status_of_def)
  from written
    process_results_exclusive [where table = "[1 \<mapsto> freshRow]" and job = sampleJob
      and row = freshRow and performEvaluation = "\<lambda>title cv report. Inr sampleResult"
      and notFound = recordNotFound and startedNow = 30 and completedNow = 40, OF h1 h2 h3]
  obtain row' where row':
    "last (writes ?run) (evaluationId sampleJob) = Some row'"
    "status row' = completed \<longrightarrow>
       error_message row' = None
       \<and> (\<exists>result. Inr sampleResult = (Inr result :: failure + EvaluationResult)
             \<and> (results_set row' \<longleftrightarrow> result_complete result))"
    by blast
  from final row'(1) have "status row' = completed"
    by (simp add: status_of_def)
  with row'(2) complete have "error_message row' = None" "results_set row'"
    by auto
  with \<open>status row' = completed\<close> row'(1) h1 h2 h3 complete show ?thesis
    by blast
qed

end
